theory Spec2Isabelle
  imports Main "HOL-Library.AList" "HOL-Library.Sublist" "HOL-Library.Multiset"
begin

section \<open>Texture format selection\<close>

text \<open>
  The enumerators of \<open>PixelFormat\<close> that \<open>iOSPlatformTools.cpp\<close> names, in the order
  of their first use in \<open>GetTextureFormat\<close>.  The declaration of the enumeration
  (Engine/Graphics/PixelFormat.h) is not part of the translated file; every enumerator
  that the file does not name is \<open>OtherFormat n\<close>, \<open>n\<close> being its numeric value.
\<close>

datatype PixelFormat =
    BC1_Typeless | BC2_Typeless | BC3_Typeless
  | R8G8B8A8_Typeless
  | BC1_UNorm | BC2_UNorm | BC3_UNorm
  | R8G8B8A8_UNorm
  | BC1_UNorm_sRGB | BC2_UNorm_sRGB | BC3_UNorm_sRGB
  | R8G8B8A8_UNorm_sRGB
  | BC4_Typeless | R8_Typeless
  | BC4_UNorm | R8_UNorm
  | BC4_SNorm | R8_SNorm
  | BC5_Typeless | R16G16_Typeless
  | BC5_UNorm | R16G16_UNorm
  | BC5_SNorm | R16G16_SNorm
  | BC7_Typeless | BC6H_Typeless
  | R16G16B16A16_Typeless
  | BC7_UNorm | BC6H_Uf16 | BC6H_Sf16
  | R16G16B16A16_Float
  | BC7_UNorm_sRGB
  | R16G16B16A16_UNorm
  | OtherFormat nat

text \<open>
  Modelled from the spec: \<open>PixelFormatExtensions::IsCompressedBC\<close> is defined in
  Engine/Graphics/PixelFormatExtensions.cpp, not in \<open>iOSPlatformTools.cpp\<close>.  The spec
  calls its extent "a closed set of compressed block-compression formats": the BC1 to BC7
  enumerators.
\<close>

fun IsCompressedBC :: "PixelFormat \<Rightarrow> bool" where
  "IsCompressedBC BC1_Typeless = True"
| "IsCompressedBC BC1_UNorm = True"
| "IsCompressedBC BC1_UNorm_sRGB = True"
| "IsCompressedBC BC2_Typeless = True"
| "IsCompressedBC BC2_UNorm = True"
| "IsCompressedBC BC2_UNorm_sRGB = True"
| "IsCompressedBC BC3_Typeless = True"
| "IsCompressedBC BC3_UNorm = True"
| "IsCompressedBC BC3_UNorm_sRGB = True"
| "IsCompressedBC BC4_Typeless = True"
| "IsCompressedBC BC4_UNorm = True"
| "IsCompressedBC BC4_SNorm = True"
| "IsCompressedBC BC5_Typeless = True"
| "IsCompressedBC BC5_UNorm = True"
| "IsCompressedBC BC5_SNorm = True"
| "IsCompressedBC BC6H_Typeless = True"
| "IsCompressedBC BC6H_Uf16 = True"
| "IsCompressedBC BC6H_Sf16 = True"
| "IsCompressedBC BC7_Typeless = True"
| "IsCompressedBC BC7_UNorm = True"
| "IsCompressedBC BC7_UNorm_sRGB = True"
| "IsCompressedBC _ = False"

text \<open>
  \<open>iOSPlatformTools::GetTextureFormat\<close> (lines 65-113).  The cooking data and the texture
  are not read by the function.  The membership test of the block-compressed set is the
  parameter \<open>isCompressedBC\<close>, since its definition is outside the translated file; the
  \<open>switch\<close> is the \<open>case\<close>, its \<open>default\<close> branch and the final \<open>return format\<close> both
  give the format back.
\<close>

definition GetTextureFormat :: "(PixelFormat \<Rightarrow> bool) \<Rightarrow> PixelFormat \<Rightarrow> PixelFormat" where
  "GetTextureFormat isCompressedBC format =
     (if isCompressedBC format then
        (case format of
           BC1_Typeless \<Rightarrow> R8G8B8A8_Typeless
         | BC2_Typeless \<Rightarrow> R8G8B8A8_Typeless
         | BC3_Typeless \<Rightarrow> R8G8B8A8_Typeless
         | BC1_UNorm \<Rightarrow> R8G8B8A8_UNorm
         | BC2_UNorm \<Rightarrow> R8G8B8A8_UNorm
         | BC3_UNorm \<Rightarrow> R8G8B8A8_UNorm
         | BC1_UNorm_sRGB \<Rightarrow> R8G8B8A8_UNorm_sRGB
         | BC2_UNorm_sRGB \<Rightarrow> R8G8B8A8_UNorm_sRGB
         | BC3_UNorm_sRGB \<Rightarrow> R8G8B8A8_UNorm_sRGB
         | BC4_Typeless \<Rightarrow> R8_Typeless
         | BC4_UNorm \<Rightarrow> R8_UNorm
         | BC4_SNorm \<Rightarrow> R8_SNorm
         | BC5_Typeless \<Rightarrow> R16G16_Typeless
         | BC5_UNorm \<Rightarrow> R16G16_UNorm
         | BC5_SNorm \<Rightarrow> R16G16_SNorm
         | BC7_Typeless \<Rightarrow> R16G16B16A16_Typeless
         | BC6H_Typeless \<Rightarrow> R16G16B16A16_Typeless
         | BC7_UNorm \<Rightarrow> R16G16B16A16_Float
         | BC6H_Uf16 \<Rightarrow> R16G16B16A16_Float
         | BC6H_Sf16 \<Rightarrow> R16G16B16A16_Float
         | BC7_UNorm_sRGB \<Rightarrow> R16G16B16A16_UNorm
         | _ \<Rightarrow> format)
      else format)"

text \<open>
  Modelled from the spec: the tables of the formats (\<open>PixelFormatExtensions\<close>) are not
  in \<open>iOSPlatformTools.cpp\<close>.  The spec describes a format by its number of channels, its bits per channel
  and its numeric interpretation ("a 4-channel 8-bit unsigned-normalized format",
  "single/two-channel equivalents of matching bit depth and signedness", "a
  16-bit-per-channel float or unsigned-normalized format").  For the uncompressed formats
  the three are spelled out by the enumerator's name (\<open>R16G16_SNorm\<close>: two channels of
  16 bits, signed normalised).  For the block formats the name gives the interpretation
  (\<open>Uf16\<close> and \<open>Sf16\<close> are the unsigned and the signed half-float variants); channels
  and bits are those of the encoding: BC1 to BC3 and BC7 decode to four 8-bit channels, BC4
  to one and BC5 to two 8-bit channels, BC6H to three half-float channels.  Nothing is known
  of an enumerator the file does not name.
\<close>

datatype Variant = Typeless | UNorm | UNorm_sRGB | SNorm | Float

fun variant :: "PixelFormat \<Rightarrow> Variant option" where
  "variant BC1_Typeless = Some Typeless"
| "variant BC2_Typeless = Some Typeless"
| "variant BC3_Typeless = Some Typeless"
| "variant R8G8B8A8_Typeless = Some Typeless"
| "variant BC1_UNorm = Some UNorm"
| "variant BC2_UNorm = Some UNorm"
| "variant BC3_UNorm = Some UNorm"
| "variant R8G8B8A8_UNorm = Some UNorm"
| "variant BC1_UNorm_sRGB = Some UNorm_sRGB"
| "variant BC2_UNorm_sRGB = Some UNorm_sRGB"
| "variant BC3_UNorm_sRGB = Some UNorm_sRGB"
| "variant R8G8B8A8_UNorm_sRGB = Some UNorm_sRGB"
| "variant BC4_Typeless = Some Typeless"
| "variant R8_Typeless = Some Typeless"
| "variant BC4_UNorm = Some UNorm"
| "variant R8_UNorm = Some UNorm"
| "variant BC4_SNorm = Some SNorm"
| "variant R8_SNorm = Some SNorm"
| "variant BC5_Typeless = Some Typeless"
| "variant R16G16_Typeless = Some Typeless"
| "variant BC5_UNorm = Some UNorm"
| "variant R16G16_UNorm = Some UNorm"
| "variant BC5_SNorm = Some SNorm"
| "variant R16G16_SNorm = Some SNorm"
| "variant BC7_Typeless = Some Typeless"
| "variant BC6H_Typeless = Some Typeless"
| "variant R16G16B16A16_Typeless = Some Typeless"
| "variant BC7_UNorm = Some UNorm"
| "variant BC6H_Uf16 = Some Float"
| "variant BC6H_Sf16 = Some Float"
| "variant R16G16B16A16_Float = Some Float"
| "variant BC7_UNorm_sRGB = Some UNorm_sRGB"
| "variant R16G16B16A16_UNorm = Some UNorm"
| "variant (OtherFormat n) = None"

fun channels :: "PixelFormat \<Rightarrow> nat option" where
  "channels R8G8B8A8_Typeless = Some 4"
| "channels R8G8B8A8_UNorm = Some 4"
| "channels R8G8B8A8_UNorm_sRGB = Some 4"
| "channels R8_Typeless = Some 1"
| "channels R8_UNorm = Some 1"
| "channels R8_SNorm = Some 1"
| "channels R16G16_Typeless = Some 2"
| "channels R16G16_UNorm = Some 2"
| "channels R16G16_SNorm = Some 2"
| "channels R16G16B16A16_Typeless = Some 4"
| "channels R16G16B16A16_Float = Some 4"
| "channels R16G16B16A16_UNorm = Some 4"
| "channels BC4_Typeless = Some 1"
| "channels BC4_UNorm = Some 1"
| "channels BC4_SNorm = Some 1"
| "channels BC5_Typeless = Some 2"
| "channels BC5_UNorm = Some 2"
| "channels BC5_SNorm = Some 2"
| "channels BC6H_Typeless = Some 3"
| "channels BC6H_Uf16 = Some 3"
| "channels BC6H_Sf16 = Some 3"
| "channels (OtherFormat n) = None"
| "channels _ = Some 4"

fun bitsPerChannel :: "PixelFormat \<Rightarrow> nat option" where
  "bitsPerChannel R16G16_Typeless = Some 16"
| "bitsPerChannel R16G16_UNorm = Some 16"
| "bitsPerChannel R16G16_SNorm = Some 16"
| "bitsPerChannel R16G16B16A16_Typeless = Some 16"
| "bitsPerChannel R16G16B16A16_Float = Some 16"
| "bitsPerChannel R16G16B16A16_UNorm = Some 16"
| "bitsPerChannel BC6H_Typeless = Some 16"
| "bitsPerChannel BC6H_Uf16 = Some 16"
| "bitsPerChannel BC6H_Sf16 = Some 16"
| "bitsPerChannel (OtherFormat n) = None"
| "bitsPerChannel _ = Some 8"

section \<open>Strings and paths\<close>

text \<open>
  The engine's \<open>String\<close> is a sequence of characters; it is modelled as \<open>string\<close>.  The
  \<open>String\<close>, \<open>StringUtils\<close> and \<open>FileSystem\<close> operations that the file calls are
  declared in Engine/Core/Types and Engine/Platform; their definitions are not in
  \<open>iOSPlatformTools.cpp\<close>.
\<close>

datatype StringSearchCase = CaseSensitive | IgnoreCase

text \<open>
  Modelled from the spec: \<open>StringUtils::ToLower\<close> and \<open>StringUtils::IsAlnum\<close> are
  defined elsewhere in the engine.  The spec has "lower-casing" and "a letter, digit": the letters are the
  Latin letters \<open>A-Z\<close> and \<open>a-z\<close>, the digits \<open>0-9\<close>; any other character is not
  alphanumeric and is its own lower case.
\<close>

definition ToLowerChar :: "char \<Rightarrow> char" where
  "ToLowerChar c =
     (case map_of (zip ''ABCDEFGHIJKLMNOPQRSTUVWXYZ'' ''abcdefghijklmnopqrstuvwxyz'') c of
        Some l \<Rightarrow> l
      | None \<Rightarrow> c)"

definition ToLower :: "string \<Rightarrow> string" where
  "ToLower s = map ToLowerChar s"

definition IsAlnum :: "char \<Rightarrow> bool" where
  "IsAlnum c \<longleftrightarrow>
     c \<in> set ''ABCDEFGHIJKLMNOPQRSTUVWXYZ''
     \<or> c \<in> set ''abcdefghijklmnopqrstuvwxyz''
     \<or> c \<in> set ''0123456789''"

text \<open>
  Modelled from the spec: \<open>String::Replace(searchText, replacementText, searchCase)\<close> is
  defined elsewhere in the engine.  The spec has it as "strip" and "substitute ... into tokens
  (case-insensitive token match)": every occurrence of the search text is replaced, the
  text being scanned from left to right, a match consumed whole and the replacement not
  scanned again; an empty string or an empty search text changes nothing.
  \<open>MatchesAt\<close> says that the search text stands at the head of the text; the counter
  of \<open>ReplaceFrom\<close> is the number of characters of the last match still to be passed.
\<close>

definition CharEquals :: "StringSearchCase \<Rightarrow> char \<Rightarrow> char \<Rightarrow> bool" where
  "CharEquals searchCase a b =
     (case searchCase of
        CaseSensitive \<Rightarrow> a = b
      | IgnoreCase \<Rightarrow> ToLowerChar a = ToLowerChar b)"

fun MatchesAt :: "StringSearchCase \<Rightarrow> string \<Rightarrow> string \<Rightarrow> bool" where
  "MatchesAt searchCase [] text = True"
| "MatchesAt searchCase (p # ps) [] = False"
| "MatchesAt searchCase (p # ps) (c # cs) =
     (CharEquals searchCase p c \<and> MatchesAt searchCase ps cs)"

fun ReplaceFrom :: "StringSearchCase \<Rightarrow> string \<Rightarrow> string \<Rightarrow> nat \<Rightarrow> string \<Rightarrow> string" where
  "ReplaceFrom searchCase searchText replacementText k [] = []"
| "ReplaceFrom searchCase searchText replacementText (Suc k) (c # cs) =
     ReplaceFrom searchCase searchText replacementText k cs"
| "ReplaceFrom searchCase searchText replacementText 0 (c # cs) =
     (if MatchesAt searchCase searchText (c # cs)
      then replacementText
             @ ReplaceFrom searchCase searchText replacementText (length searchText - 1) cs
      else c # ReplaceFrom searchCase searchText replacementText 0 cs)"

definition Replace :: "string \<Rightarrow> string \<Rightarrow> StringSearchCase \<Rightarrow> string \<Rightarrow> string" where
  "Replace searchText replacementText searchCase s =
     (if s = [] \<or> searchText = [] then s
      else ReplaceFrom searchCase searchText replacementText 0 s)"

text \<open>
  Modelled from the spec: \<open>String::EndsWith(suffix, searchCase)\<close> is defined elsewhere
  in the engine.  The spec has "the file extension matches the platform's native
  shared-library suffix": the string is at least as long as the suffix, which is not empty, and its last characters
  are those of the suffix under the search case.  \<open>iOSPlatformTools.cpp\<close> calls it with
  the suffix only; the default of \<open>searchCase\<close> is part of the missing declaration, and
  is a parameter of every definition that calls \<open>EndsWith\<close>.
\<close>

definition EndsWith :: "string \<Rightarrow> StringSearchCase \<Rightarrow> string \<Rightarrow> bool" where
  "EndsWith ending searchCase s \<longleftrightarrow>
     ending \<noteq> [] \<and> length ending \<le> length s
     \<and> list_all2 (CharEquals searchCase) ending (drop (length s - length ending) s)"

text \<open>
  Modelled from the spec: \<open>String::Left(count)\<close> is defined elsewhere in the engine.  The
  spec has the identifier "truncate[d] ... to exactly 24 characters": the first \<open>count\<close>
  characters of the string.
\<close>

definition Left :: "nat \<Rightarrow> string \<Rightarrow> string" where
  "Left n s = take n s"

text \<open>
  Modelled from the spec: \<open>StringUtils::GetFileName\<close> and \<open>FileSystem::GetExtension\<close> are
  defined elsewhere in the engine.  The spec speaks of an artifact's "name" and of "the file extension":
  the name is what follows the last separator of the path (the whole path when it has
  none), the extension what follows the last dot of the name, without the dot (empty
  when the name has no dot).  The separators are the slash, the backslash and the colon
  of a volume.
\<close>

definition IsSeparator :: "char \<Rightarrow> bool" where
  "IsSeparator c \<longleftrightarrow> c = CHR ''/'' \<or> c = CHR 0x5C \<or> c = CHR '':''"

definition GetFileName :: "string \<Rightarrow> string" where
  "GetFileName path = rev (takeWhile (\<lambda>c. \<not> IsSeparator c) (rev path))"

definition GetExtension :: "string \<Rightarrow> string" where
  "GetExtension path =
     (case dropWhile (\<lambda>c. c \<noteq> CHR ''.'' \<and> \<not> IsSeparator c) (rev path) of
        [] \<Rightarrow> []
      | c # rest \<Rightarrow>
          if c = CHR ''.''
          then rev (takeWhile (\<lambda>c. c \<noteq> CHR ''.'' \<and> \<not> IsSeparator c) (rev path))
          else [])"

text \<open>
  Modelled from the spec: the operator \<open>/\<close> of \<open>String\<close> is defined elsewhere in
  the engine.  It joins two parts of a path (the spec has paths "rooted under" a folder)
  and is taken to put one slash between them.  The paths it builds are arguments of the
  file-system calls only.
\<close>

definition PathJoin :: "string \<Rightarrow> string \<Rightarrow> string" where
  "PathJoin a b = a @ ''/'' @ b"

section \<open>Native code files\<close>

text \<open>\<open>iOSPlatformTools::IsNativeCodeFile\<close> (lines 115-119); the cooking data is not read.\<close>

definition IsNativeCodeFile :: "string \<Rightarrow> bool" where
  "IsNativeCodeFile file =
     (let extension = GetExtension file
      in extension = [] \<or> extension = ''dylib'')"

section \<open>The generated sections of the project file\<close>

text \<open>
  An object identifier is the text \<open>Guid::New().ToString(Guid::FormatType::N).Left(24)\<close>.
  Every \<open>+=\<close> of the loop of \<open>OnPostProcess\<close> appends one formatted line to one entry of
  \<open>configReplaceMap\<close>.  A line is kept with its arguments: a build-file entry
  (\<open>isa = PBXBuildFile\<close>) has its own identifier, the file name, the build phase of its
  comment and the identifier of the file reference it points to; a file-reference entry
  (\<open>isa = PBXFileReference\<close>) has its identifier, the name, whether it is written as a
  dynamic library, and the project path; a membership line has the identifier it lists,
  the name and the build phase of its comment, if any.  \<open>FormatLine\<close> is the text that
  \<open>String::Format\<close> gives for the line (\<open>{{\<close> and \<open>}}\<close> of a format string are the
  braces themselves).
\<close>

type_synonym ObjectID = string

datatype BuildPhase = Frameworks | EmbedFrameworks | Resources

datatype PBXLine =
    BuildFileEntry ObjectID string BuildPhase ObjectID
  | FileReferenceEntry ObjectID string bool string
  | MembershipLine ObjectID string "BuildPhase option"

definition tab :: char where
  "tab = CHR 0x09"

definition newline :: char where
  "newline = CHR 0x0A"

fun FormatLine :: "PBXLine \<Rightarrow> string" where
  "FormatLine (BuildFileEntry a0 a1 Frameworks a2) =
     [tab, tab] @ a0 @ '' /* '' @ a1 @ '' in Frameworks */ = {isa = PBXBuildFile; fileRef = ''
       @ a2 @ '' /* '' @ a1 @ '' */; };'' @ [newline]"
| "FormatLine (BuildFileEntry a0 a1 EmbedFrameworks a2) =
     [tab, tab] @ a0 @ '' /* '' @ a1
       @ '' in Embed Frameworks */ = {isa = PBXBuildFile; fileRef = ''
       @ a2 @ '' /* '' @ a1 @ '' */; settings = {ATTRIBUTES = (CodeSignOnCopy, ); }; };''
       @ [newline]"
| "FormatLine (BuildFileEntry a0 a1 Resources a2) =
     [tab, tab] @ a0 @ '' /* '' @ a1 @ '' in Resources */ = {isa = PBXBuildFile; fileRef = ''
       @ a2 @ '' /* '' @ a1 @ '' */; };'' @ [newline]"
| "FormatLine (FileReferenceEntry a0 a1 True a2) =
     [tab, tab] @ a0 @ '' /* '' @ a1
       @ '' */ = {isa = PBXFileReference; lastKnownFileType = \"compiled.mach-o.dylib\"; name = \"''
       @ a1 @ ''\"; path = \"FlaxGame/Data/'' @ a2 @ ''\"; sourceTree = \"<group>\"; };''
       @ [newline]"
| "FormatLine (FileReferenceEntry a0 a1 False a2) =
     [tab, tab] @ a0 @ '' /* '' @ a1
       @ '' */ = {isa = PBXFileReference; lastKnownFileType = file; name = \"''
       @ a1 @ ''\"; path = \"Data/'' @ a2 @ ''\"; sourceTree = \"<group>\"; };''
       @ [newline]"
| "FormatLine (MembershipLine a0 a1 (Some EmbedFrameworks)) =
     [tab, tab, tab, tab] @ a0 @ '' /* '' @ a1 @ '' in Embed Frameworks */,'' @ [newline]"
| "FormatLine (MembershipLine a0 a1 (Some Frameworks)) =
     [tab, tab, tab, tab] @ a0 @ '' /* '' @ a1 @ '' in Frameworks */,'' @ [newline]"
| "FormatLine (MembershipLine a0 a1 None) =
     [tab, tab, tab, tab] @ a0 @ '' /* '' @ a1 @ '' */,'' @ [newline]"
| "FormatLine (MembershipLine a0 a1 (Some Resources)) =
     [tab, tab, tab, tab] @ a0 @ '' /* '' @ a1 @ '' in Resources */,'' @ [newline]"

text \<open>
  The identifier an entry defines (its subject), and the identifiers a line refers to: the
  \<open>fileRef\<close> field of a build-file entry and the identifier of a membership line.
\<close>

fun subject :: "PBXLine \<Rightarrow> ObjectID option" where
  "subject (BuildFileEntry a0 a1 phase a2) = Some a0"
| "subject (FileReferenceEntry a0 a1 dylib a2) = Some a0"
| "subject (MembershipLine a0 a1 phase) = None"

fun references :: "PBXLine \<Rightarrow> ObjectID list" where
  "references (BuildFileEntry a0 a1 phase a2) = [a2]"
| "references (FileReferenceEntry a0 a1 dylib a2) = []"
| "references (MembershipLine a0 a1 phase) = [a0]"

definition subjects :: "PBXLine list \<Rightarrow> ObjectID list" where
  "subjects ls = List.map_filter subject ls"

section \<open>The post-process step\<close>

text \<open>
  What \<open>OnPostProcess\<close> reads: the settings objects, the cooking data, and what the calls
  it makes to the platform give back.  \<open>NewGuid n\<close> is the text
  \<open>Guid::New().ToString(Guid::FormatType::N)\<close> of the \<open>n\<close>-th identifier created during
  the call, counted from 0; \<open>Files\<close> is the list that \<open>FileSystem::DirectoryGetFiles\<close>
  fills; \<open>CopyDirectoryFails\<close> and \<open>ReplaceInFileFails\<close> are the results of
  \<open>FileSystem::CopyDirectory\<close> and \<open>EditorUtilities::ReplaceInFile\<close> (true on failure);
  \<open>CreateProcessResult\<close> is the exit code \<open>Platform::CreateProcess\<close> returns for the
  given settings; \<open>EndsWithSearchCase\<close> is the default search case of \<open>String::EndsWith\<close>.
\<close>

record CreateProcessSettings =
  FileName :: string
  Arguments :: string

record CookingEnvironment =
  ProductName :: string
  CompanyName :: string
  AppIdentifier :: string
  AppTeamId :: string
  ProjectVersion :: string
  StartupFolder :: string
  SkipPackaging :: bool
  OriginalOutputPath :: string
  DataOutputPath :: string
  PlatformBinariesRoot :: string
  EndsWithSearchCase :: StringSearchCase
  CopyDirectoryFails :: bool
  Files :: "string list"
  NewGuid :: "nat \<Rightarrow> string"
  ConvertAbsolutePathToRelative :: "string \<Rightarrow> string \<Rightarrow> string"
  CreateProcessResult :: "CreateProcessSettings \<Rightarrow> int"
  ReplaceInFileFails :: bool

text \<open>
  What \<open>OnPostProcess\<close> does to the outside, in the order of the calls: the log lines
  with their formatted text, the file-system calls with their arguments, each started
  process with the exit code it returned, the substitution into the project file with the
  dictionary it is given, the packaging of the cooker.
\<close>

datatype LogType = Info | Error

datatype DirectorySearchOption = AllDirectories | TopDirectoryOnly

datatype Effect =
    LOG LogType string
  | CopyDirectory string string bool
  | MoveFile string string bool
  | DirectoryGetFiles string string DirectorySearchOption
  | CreateProcess CreateProcessSettings int
  | ReplaceInFile string "(string \<times> string) list"
  | PackageFiles

text \<open>
  \<open>GetAppName\<close> (lines 29-37) and the same three calls on the company name (lines
  147-150).  The three search texts have no letter, so that the default search case of
  \<open>Replace\<close> makes no difference.
\<close>

definition StripName :: "string \<Rightarrow> string" where
  "StripName name =
     Replace ''-'' [] CaseSensitive
       (Replace ''.'' [] CaseSensitive
         (Replace '' '' [] CaseSensitive name))"

definition GetAppName :: "CookingEnvironment \<Rightarrow> string" where
  "GetAppName env = StripName (ProductName env)"

text \<open>Lines 141-153: the package name before it is checked.\<close>

definition SetupAppIdentifier :: "CookingEnvironment \<Rightarrow> string" where
  "SetupAppIdentifier env =
     (let appIdentifier = AppIdentifier env;
          productName = StripName (ProductName env);
          companyName = StripName (CompanyName env);
          appIdentifier = Replace ''${PROJECT_NAME}'' productName IgnoreCase appIdentifier;
          appIdentifier = Replace ''${COMPANY_NAME}'' companyName IgnoreCase appIdentifier
      in ToLower appIdentifier)"

text \<open>Lines 154-162: the loop over the characters finds one that is not allowed.\<close>

fun HasInvalidCharacter :: "string \<Rightarrow> bool" where
  "HasInvalidCharacter [] = False"
| "HasInvalidCharacter (c # cs) =
     (if c \<noteq> CHR ''_'' \<and> c \<noteq> CHR ''.'' \<and> \<not> IsAlnum c then True
      else HasInvalidCharacter cs)"

text \<open>
  The state of the loop over the files (lines 204-237): the dictionary, the lines appended
  to it so far with the key of each, the number of identifiers created, and the calls made.
\<close>

record LoopState =
  configReplaceMap :: "(string \<times> string) list"
  appended :: "(string \<times> PBXLine) list"
  guids :: nat
  effects :: "Effect list"

text \<open>\<open>configReplaceMap[key] += String::Format(...)\<close>.\<close>

definition Append :: "string \<times> PBXLine \<Rightarrow> (string \<times> string) list \<Rightarrow> (string \<times> string) list" where
  "Append kl m =
     AList.map_default (fst kl) (FormatLine (snd kl)) (\<lambda>v. v @ FormatLine (snd kl)) m"

definition Excluded :: "string \<Rightarrow> bool" where
  "Excluded name \<longleftrightarrow> name = ''.DS_Store'' \<or> name = ''FlaxGame''"

definition DylibLines :: "ObjectID \<Rightarrow> ObjectID \<Rightarrow> ObjectID \<Rightarrow> string \<Rightarrow> string
    \<Rightarrow> (string \<times> PBXLine) list" where
  "DylibLines fileId frameworkId frameworkEmbedId name projectPath =
     [(''${PBXBuildFile}'', BuildFileEntry frameworkId name Frameworks fileId),
      (''${PBXBuildFile}'', BuildFileEntry frameworkEmbedId name EmbedFrameworks fileId),
      (''${PBXCopyFilesBuildPhaseFiles}'',
         MembershipLine frameworkEmbedId name (Some EmbedFrameworks)),
      (''${PBXFileReference}'', FileReferenceEntry fileId name True projectPath),
      (''${PBXFrameworksBuildPhase}'', MembershipLine frameworkId name (Some Frameworks)),
      (''${PBXFrameworksGroup}'', MembershipLine fileId name None)]"

definition ResourceLines :: "ObjectID \<Rightarrow> ObjectID \<Rightarrow> string \<Rightarrow> string
    \<Rightarrow> (string \<times> PBXLine) list" where
  "ResourceLines fileId fileRefId name projectPath =
     [(''${PBXBuildFile}'', BuildFileEntry fileRefId name Resources fileId),
      (''${PBXFileReference}'', FileReferenceEntry fileId name False projectPath),
      (''${PBXFilesGroup}'', MembershipLine fileId name None),
      (''${PBXResourcesGroup}'', MembershipLine fileRefId name (Some Resources))]"

text \<open>Lines 224-227: the settings of the process that rewrites the identity of a library.\<close>

definition FixRpathId :: "string \<Rightarrow> string \<Rightarrow> CreateProcessSettings" where
  "FixRpathId name file =
     \<lparr>FileName = ''install_name_tool'',
      Arguments = ''-id \"@rpath/'' @ name @ ''\" \"'' @ file @ ''\"''\<rparr>"

text \<open>The body of the loop (lines 206-236) for one file.\<close>

definition ProcessFile :: "CookingEnvironment \<Rightarrow> string \<Rightarrow> LoopState \<Rightarrow> LoopState" where
  "ProcessFile env file st =
     (let name = GetFileName file
      in if Excluded name then st
         else
           let fileId = Left 24 (NewGuid env (guids st));
               projectPath = ConvertAbsolutePathToRelative env (DataOutputPath env) file
           in if EndsWith ''.dylib'' (EndsWithSearchCase env) name
              then
                let frameworkId = Left 24 (NewGuid env (guids st + 1));
                    frameworkEmbedId = Left 24 (NewGuid env (guids st + 2));
                    ls = DylibLines fileId frameworkId frameworkEmbedId name projectPath;
                    proc = FixRpathId name file
                in \<lparr>configReplaceMap = fold Append ls (configReplaceMap st),
                    appended = appended st @ ls,
                    guids = guids st + 3,
                    effects = effects st @ [CreateProcess proc (CreateProcessResult env proc)]\<rparr>
              else
                let fileRefId = Left 24 (NewGuid env (guids st + 1));
                    ls = ResourceLines fileId fileRefId name projectPath
                in \<lparr>configReplaceMap = fold Append ls (configReplaceMap st),
                    appended = appended st @ ls,
                    guids = guids st + 2,
                    effects = effects st\<rparr>)"

text \<open>Lines 178-195: the dictionary before the loop.\<close>

definition InitialReplaceMap :: "CookingEnvironment \<Rightarrow> string \<Rightarrow> (string \<times> string) list" where
  "InitialReplaceMap env appIdentifier =
     AList.update ''${PBXResourcesGroup}'' []
      (AList.update ''${PBXFilesGroup}'' []
       (AList.update ''${PBXFrameworksGroup}'' []
        (AList.update ''${PBXFrameworksBuildPhase}'' []
         (AList.update ''${PBXFileReference}'' []
          (AList.update ''${PBXCopyFilesBuildPhaseFiles}'' []
           (AList.update ''${PBXBuildFile}'' []
            (AList.update ''${HeaderSearchPaths}'' (StartupFolder env)
             (AList.update ''${ProjectVersion}'' (ProjectVersion env)
              (AList.update ''${ProjectName}'' (ProductName env)
               (AList.update ''${AppVersion}'' ''1''
                (AList.update ''${AppTeamId}'' (AppTeamId env)
                 (AList.update ''${AppIdentifier}'' appIdentifier
                  (AList.update ''${AppName}'' (GetAppName env) [])))))))))))))"

text \<open>
  Lines 197-237: the two renamings, the listing of the data folder and the loop, started
  from the dictionary \<open>m\<close>.
\<close>

definition BuildProject :: "CookingEnvironment \<Rightarrow> (string \<times> string) list \<Rightarrow> LoopState" where
  "BuildProject env m =
     fold (ProcessFile env) (Files env)
       \<lparr>configReplaceMap = m,
        appended = [],
        guids = 0,
        effects =
          [MoveFile (PathJoin (DataOutputPath env) ''Dotnet/DOTNET-LICENSE.TXT'')
             (PathJoin (DataOutputPath env) ''Dotnet/LICENSE.TXT'') True,
           MoveFile (PathJoin (DataOutputPath env) ''Dotnet/DOTNET-THIRD-PARTY-NOTICES.TXT'')
             (PathJoin (DataOutputPath env) ''Dotnet/THIRD-PARTY-NOTICES.TXT'') True,
           DirectoryGetFiles (DataOutputPath env) ''*'' AllDirectories]\<rparr>"

text \<open>
  \<open>iOSPlatformTools::OnPostProcess\<close> (lines 132-270): the value returned (true on failure)
  and the calls made, in order.
\<close>

definition OnPostProcess :: "CookingEnvironment \<Rightarrow> bool \<times> Effect list" where
  "OnPostProcess env =
     (let platformDataPath = PlatformBinariesRoot env;
          appIdentifier = SetupAppIdentifier env
      in if HasInvalidCharacter appIdentifier then
           (True,
            [LOG Error (''Apple app identifier '' @ [CHR 0x27] @ appIdentifier @ [CHR 0x27]
               @ '' contains invalid character. Only letters, numbers, dots and underscore characters are allowed.'')])
         else if appIdentifier = [] then
           (True, [LOG Error ''Apple app identifier is empty.''])
         else
           let copy = CopyDirectory (OriginalOutputPath env) (PathJoin platformDataPath ''Project'') True
           in if CopyDirectoryFails env then
                (True,
                 [copy,
                  LOG Error (''Failed to deploy XCode project to '' @ OriginalOutputPath env
                    @ '' from '' @ platformDataPath)])
              else
                let st = BuildProject env (InitialReplaceMap env appIdentifier);
                    replace = ReplaceInFile
                      (PathJoin (OriginalOutputPath env) ''FlaxGame.xcodeproj/project.pbxproj'')
                      (configReplaceMap st)
                in if ReplaceInFileFails env then
                     (True, copy # effects st @ [replace, LOG Error ''Failed to format XCode project''])
                   else if SkipPackaging env then
                     (False, copy # effects st @ [replace])
                   else
                     (False,
                      copy # effects st @ [replace, PackageFiles, LOG Info ''Building app package...'']))"

section \<open>Measures and examples used in the statements\<close>

text \<open>
  The files of the listing that the loop does not skip, and those of them that it treats as
  dynamic libraries; the identifier of the \<open>n\<close>-th \<open>Guid\<close>; the identifiers that the lines
  refer to; the processes among the calls, and the calls without the exit codes.
\<close>

definition Artifacts :: "CookingEnvironment \<Rightarrow> string list" where
  "Artifacts env = filter (\<lambda>file. \<not> Excluded (GetFileName file)) (Files env)"

definition IsDylib :: "CookingEnvironment \<Rightarrow> string \<Rightarrow> bool" where
  "IsDylib env file \<longleftrightarrow> EndsWith ''.dylib'' (EndsWithSearchCase env) (GetFileName file)"

definition Libraries :: "CookingEnvironment \<Rightarrow> string list" where
  "Libraries env = filter (IsDylib env) (Artifacts env)"

definition ObjectIdOf :: "CookingEnvironment \<Rightarrow> nat \<Rightarrow> ObjectID" where
  "ObjectIdOf env n = Left 24 (NewGuid env n)"

definition referenced :: "PBXLine list \<Rightarrow> ObjectID list" where
  "referenced ls = concat (map references ls)"

fun IsCreateProcess :: "Effect \<Rightarrow> bool" where
  "IsCreateProcess (CreateProcess proc code) = True"
| "IsCreateProcess _ = False"

fun IsLog :: "Effect \<Rightarrow> bool" where
  "IsLog (LOG t msg) = True"
| "IsLog _ = False"

fun WithoutExitCode :: "Effect \<Rightarrow> Effect" where
  "WithoutExitCode (CreateProcess proc code) = CreateProcess proc 0"
| "WithoutExitCode e = e"

text \<open>
  The environment of the scenarios of the spec: product \<open>My.Game-1\<close> of company
  \<open>Acme Inc\<close>, the listing \<open>lib.dylib\<close>, \<open>data.bin\<close>, identifiers that differ in
  their first character, every call succeeding and every process returning 1.
\<close>

definition scenarioGuid :: "nat \<Rightarrow> string" where
  "scenarioGuid n = (''0123456789abcdef'' ! (n mod 16)) # replicate 31 (CHR ''0'')"

definition scenario :: CookingEnvironment where
  "scenario =
     \<lparr>ProductName = ''My.Game-1'',
      CompanyName = ''Acme Inc'',
      AppIdentifier = ''com.${COMPANY_NAME}.${PROJECT_NAME}'',
      AppTeamId = ''TEAM'',
      ProjectVersion = ''1.0'',
      StartupFolder = ''/engine'',
      SkipPackaging = True,
      OriginalOutputPath = ''/out'',
      DataOutputPath = ''/out/FlaxGame/Data'',
      PlatformBinariesRoot = ''/platform'',
      EndsWithSearchCase = IgnoreCase,
      CopyDirectoryFails = False,
      Files = [''lib.dylib'', ''data.bin''],
      NewGuid = scenarioGuid,
      ConvertAbsolutePathToRelative = (\<lambda>base file. file),
      CreateProcessResult = (\<lambda>proc. 1),
      ReplaceInFileFails = False\<rparr>"

section \<open>Properties of the texture format selection\<close>

text \<open>
  C3.  \<open>GetTextureFormat\<close> is a total function (it is a definition of HOL), and it is
  idempotent: for every format of the block-compressed set, selecting twice gives what
  selecting once gives, and every format outside the set is given back unchanged.  This
  holds whatever the extent of the block-compressed set is.
\<close>

theorem GetTextureFormat_idempotent:
  "(\<forall>f. isBC f \<longrightarrow>
      GetTextureFormat isBC (GetTextureFormat isBC f) = GetTextureFormat isBC f)
   \<and> (\<forall>f. \<not> isBC f \<longrightarrow> GetTextureFormat isBC f = f)"
proof (intro conjI allI impI)
  fix f assume "isBC f"
  then show "GetTextureFormat isBC (GetTextureFormat isBC f) = GetTextureFormat isBC f"
    by (cases f) (simp_all add: GetTextureFormat_def)
next
  fix f assume "\<not> isBC f"
  then show "GetTextureFormat isBC f = f"
    by (simp add: GetTextureFormat_def)
qed

theorem GetTextureFormat_idempotent_witness:
  "IsCompressedBC BC5_SNorm
   \<and> GetTextureFormat IsCompressedBC (GetTextureFormat IsCompressedBC BC5_SNorm) = R16G16_SNorm
   \<and> GetTextureFormat IsCompressedBC BC5_SNorm = R16G16_SNorm
   \<and> \<not> IsCompressedBC R16G16_SNorm
   \<and> GetTextureFormat IsCompressedBC R16G16_SNorm = R16G16_SNorm"
  using GetTextureFormat_idempotent [of IsCompressedBC]
  by (simp add: GetTextureFormat_def)

text \<open>
  C6, as stated, fails.  \<open>BC1_Typeless\<close> is a block format of four 8-bit channels, and
  the format selected for it is \<open>R8G8B8A8_Typeless\<close>, which is typeless and not
  unsigned-normalised.  \<open>BC5_UNorm\<close> is a block format of two 8-bit channels, and the
  format selected for it has 16 bits per channel, not 8.
\<close>

theorem GetTextureFormat_nearest_counterexample:
  "IsCompressedBC BC1_Typeless
   \<and> channels BC1_Typeless = Some 4 \<and> bitsPerChannel BC1_Typeless = Some 8
   \<and> GetTextureFormat IsCompressedBC BC1_Typeless = R8G8B8A8_Typeless
   \<and> variant (GetTextureFormat IsCompressedBC BC1_Typeless) \<noteq> Some UNorm
   \<and> IsCompressedBC BC5_UNorm
   \<and> channels BC5_UNorm = Some 2 \<and> bitsPerChannel BC5_UNorm = Some 8
   \<and> GetTextureFormat IsCompressedBC BC5_UNorm = R16G16_UNorm
   \<and> bitsPerChannel (GetTextureFormat IsCompressedBC BC5_UNorm) \<noteq> Some 8"
  by (simp add: GetTextureFormat_def)

text \<open>
  C6, amended.  For a format of the block-compressed set: a BC1, BC2 or BC3 format gives
  \<open>R8G8B8A8_Typeless\<close>, \<open>R8G8B8A8_UNorm\<close> or \<open>R8G8B8A8_UNorm_sRGB\<close>, the format of
  four 8-bit channels of the same variant (typeless, unsigned-normalised or sRGB); a BC4
  format gives \<open>R8_Typeless\<close>, \<open>R8_UNorm\<close> or \<open>R8_SNorm\<close>, the format of one 8-bit
  channel of the same variant (typeless, unsigned or signed); a BC5 format gives
  \<open>R16G16_Typeless\<close>, \<open>R16G16_UNorm\<close> or \<open>R16G16_SNorm\<close>, the format of two 16-bit
  channels of the same variant; the typeless BC6H and BC7 formats give
  \<open>R16G16B16A16_Typeless\<close>, \<open>BC6H_Uf16\<close>, \<open>BC6H_Sf16\<close> and \<open>BC7_UNorm\<close> give
  \<open>R16G16B16A16_Float\<close>, and \<open>BC7_UNorm_sRGB\<close> gives \<open>R16G16B16A16_UNorm\<close>.
\<close>

theorem GetTextureFormat_nearest:
  assumes "isBC f"
  shows "(f \<in> {BC1_Typeless, BC2_Typeless, BC3_Typeless} \<longrightarrow>
            GetTextureFormat isBC f = R8G8B8A8_Typeless)
       \<and> (f \<in> {BC1_UNorm, BC2_UNorm, BC3_UNorm} \<longrightarrow>
            GetTextureFormat isBC f = R8G8B8A8_UNorm)
       \<and> (f \<in> {BC1_UNorm_sRGB, BC2_UNorm_sRGB, BC3_UNorm_sRGB} \<longrightarrow>
            GetTextureFormat isBC f = R8G8B8A8_UNorm_sRGB)
       \<and> (f = BC4_Typeless \<longrightarrow> GetTextureFormat isBC f = R8_Typeless)
       \<and> (f = BC4_UNorm \<longrightarrow> GetTextureFormat isBC f = R8_UNorm)
       \<and> (f = BC4_SNorm \<longrightarrow> GetTextureFormat isBC f = R8_SNorm)
       \<and> (f = BC5_Typeless \<longrightarrow> GetTextureFormat isBC f = R16G16_Typeless)
       \<and> (f = BC5_UNorm \<longrightarrow> GetTextureFormat isBC f = R16G16_UNorm)
       \<and> (f = BC5_SNorm \<longrightarrow> GetTextureFormat isBC f = R16G16_SNorm)
       \<and> (f \<in> {BC6H_Typeless, BC7_Typeless} \<longrightarrow>
            GetTextureFormat isBC f = R16G16B16A16_Typeless)
       \<and> (f \<in> {BC6H_Uf16, BC6H_Sf16, BC7_UNorm} \<longrightarrow>
            GetTextureFormat isBC f = R16G16B16A16_Float)
       \<and> (f = BC7_UNorm_sRGB \<longrightarrow> GetTextureFormat isBC f = R16G16B16A16_UNorm)
       \<and> (f \<in> {BC1_Typeless, BC1_UNorm, BC1_UNorm_sRGB, BC2_Typeless, BC2_UNorm,
               BC2_UNorm_sRGB, BC3_Typeless, BC3_UNorm, BC3_UNorm_sRGB} \<longrightarrow>
            GetTextureFormat isBC f
              \<in> {R8G8B8A8_Typeless, R8G8B8A8_UNorm, R8G8B8A8_UNorm_sRGB}
          \<and> channels (GetTextureFormat isBC f) = Some 4
          \<and> bitsPerChannel (GetTextureFormat isBC f) = Some 8
          \<and> variant (GetTextureFormat isBC f) = variant f)
       \<and> (f \<in> {BC4_Typeless, BC4_UNorm, BC4_SNorm} \<longrightarrow>
            GetTextureFormat isBC f \<in> {R8_Typeless, R8_UNorm, R8_SNorm}
          \<and> channels (GetTextureFormat isBC f) = Some 1
          \<and> bitsPerChannel (GetTextureFormat isBC f) = Some 8
          \<and> variant (GetTextureFormat isBC f) = variant f)
       \<and> (f \<in> {BC5_Typeless, BC5_UNorm, BC5_SNorm} \<longrightarrow>
            GetTextureFormat isBC f \<in> {R16G16_Typeless, R16G16_UNorm, R16G16_SNorm}
          \<and> channels (GetTextureFormat isBC f) = Some 2
          \<and> bitsPerChannel (GetTextureFormat isBC f) = Some 16
          \<and> variant (GetTextureFormat isBC f) = variant f)"
  using assms by (auto simp add: GetTextureFormat_def)

theorem GetTextureFormat_nearest_witness:
  "IsCompressedBC BC2_Typeless
   \<and> GetTextureFormat IsCompressedBC BC2_Typeless = R8G8B8A8_Typeless
   \<and> IsCompressedBC BC1_UNorm
   \<and> GetTextureFormat IsCompressedBC BC1_UNorm = R8G8B8A8_UNorm
   \<and> IsCompressedBC BC3_UNorm_sRGB
   \<and> GetTextureFormat IsCompressedBC BC3_UNorm_sRGB = R8G8B8A8_UNorm_sRGB
   \<and> channels (GetTextureFormat IsCompressedBC BC3_UNorm_sRGB) = Some 4
   \<and> bitsPerChannel (GetTextureFormat IsCompressedBC BC3_UNorm_sRGB) = Some 8
   \<and> variant (GetTextureFormat IsCompressedBC BC3_UNorm_sRGB) = Some UNorm_sRGB
   \<and> IsCompressedBC BC4_Typeless
   \<and> GetTextureFormat IsCompressedBC BC4_Typeless = R8_Typeless
   \<and> IsCompressedBC BC4_UNorm
   \<and> GetTextureFormat IsCompressedBC BC4_UNorm = R8_UNorm
   \<and> IsCompressedBC BC4_SNorm
   \<and> GetTextureFormat IsCompressedBC BC4_SNorm = R8_SNorm
   \<and> channels (GetTextureFormat IsCompressedBC BC4_SNorm) = Some 1
   \<and> bitsPerChannel (GetTextureFormat IsCompressedBC BC4_SNorm) = Some 8
   \<and> variant (GetTextureFormat IsCompressedBC BC4_SNorm) = Some SNorm
   \<and> IsCompressedBC BC5_Typeless
   \<and> GetTextureFormat IsCompressedBC BC5_Typeless = R16G16_Typeless
   \<and> channels (GetTextureFormat IsCompressedBC BC5_Typeless) = Some 2
   \<and> bitsPerChannel (GetTextureFormat IsCompressedBC BC5_Typeless) = Some 16
   \<and> variant (GetTextureFormat IsCompressedBC BC5_Typeless) = Some Typeless
   \<and> IsCompressedBC BC5_UNorm
   \<and> GetTextureFormat IsCompressedBC BC5_UNorm = R16G16_UNorm
   \<and> IsCompressedBC BC5_SNorm
   \<and> GetTextureFormat IsCompressedBC BC5_SNorm = R16G16_SNorm
   \<and> IsCompressedBC BC6H_Typeless
   \<and> GetTextureFormat IsCompressedBC BC6H_Typeless = R16G16B16A16_Typeless
   \<and> IsCompressedBC BC6H_Sf16
   \<and> GetTextureFormat IsCompressedBC BC6H_Sf16 = R16G16B16A16_Float
   \<and> IsCompressedBC BC7_UNorm_sRGB
   \<and> GetTextureFormat IsCompressedBC BC7_UNorm_sRGB = R16G16B16A16_UNorm"
  using GetTextureFormat_nearest [of IsCompressedBC BC2_Typeless]
    GetTextureFormat_nearest [of IsCompressedBC BC1_UNorm]
    GetTextureFormat_nearest [of IsCompressedBC BC3_UNorm_sRGB]
    GetTextureFormat_nearest [of IsCompressedBC BC4_Typeless]
    GetTextureFormat_nearest [of IsCompressedBC BC4_UNorm]
    GetTextureFormat_nearest [of IsCompressedBC BC4_SNorm]
    GetTextureFormat_nearest [of IsCompressedBC BC5_Typeless]
    GetTextureFormat_nearest [of IsCompressedBC BC5_UNorm]
    GetTextureFormat_nearest [of IsCompressedBC BC5_SNorm]
    GetTextureFormat_nearest [of IsCompressedBC BC6H_Typeless]
    GetTextureFormat_nearest [of IsCompressedBC BC6H_Sf16]
    GetTextureFormat_nearest [of IsCompressedBC BC7_UNorm_sRGB]
  by simp

section \<open>Properties of the package name\<close>

text \<open>
  Replacing a one-character search text by the empty text removes the characters equal to
  it; the three replacements on a name therefore remove its spaces, dots and hyphens.
\<close>

lemma ReplaceFrom_single:
  "ReplaceFrom sc [x] [] 0 s = filter (\<lambda>c. \<not> CharEquals sc x c) s"
  by (induction s) simp_all

lemma Replace_single:
  "Replace [x] [] sc s = filter (\<lambda>c. \<not> CharEquals sc x c) s"
  by (simp add: Replace_def ReplaceFrom_single)

lemma StripName_filter:
  "StripName name = filter (\<lambda>c. c \<noteq> CHR '' '' \<and> c \<noteq> CHR ''.'' \<and> c \<noteq> CHR ''-'') name"
proof -
  have "StripName name =
      filter (\<lambda>c. CHR ''-'' \<noteq> c) (filter (\<lambda>c. CHR ''.'' \<noteq> c) (filter (\<lambda>c. CHR '' '' \<noteq> c) name))"
    by (simp only: StripName_def Replace_single CharEquals_def StringSearchCase.case)
  also have "\<dots> = filter (\<lambda>c. c \<noteq> CHR '' '' \<and> c \<noteq> CHR ''.'' \<and> c \<noteq> CHR ''-'') name"
    by (auto intro: filter_cong)
  finally show ?thesis .
qed

lemma ReplaceFrom_skip:
  "ReplaceFrom sc s r (length xs) (xs @ rest) = ReplaceFrom sc s r 0 rest"
  by (induction xs) simp_all

lemma MatchesAt_IgnoreCase:
  "MatchesAt IgnoreCase p t \<longleftrightarrow> length p \<le> length t \<and> ToLower (take (length p) t) = ToLower p"
  by (induction IgnoreCase p t rule: MatchesAt.induct) (auto simp: CharEquals_def ToLower_def)

lemma Replace_token:
  assumes "ToLower tok = ToLower s" "s \<noteq> []"
  shows "Replace s r IgnoreCase (tok @ rest) = r @ Replace s r IgnoreCase rest"
proof -
  have len: "length tok = length s" using assms(1) by (metis ToLower_def length_map)
  then obtain c cs where tok: "tok = c # cs" using assms(2) by (cases tok) auto
  have m: "MatchesAt IgnoreCase s (tok @ rest)"
    by (simp add: MatchesAt_IgnoreCase len[symmetric] assms(1))
  have "ReplaceFrom IgnoreCase s r 0 (tok @ rest) = r @ ReplaceFrom IgnoreCase s r (length cs) (cs @ rest)"
  proof -
    have "length s - 1 = length cs" using len tok by simp
    then show ?thesis using m by (simp add: tok)
  qed
  then show ?thesis using assms(2) tok by (simp add: Replace_def ReplaceFrom_skip)
qed






text \<open>
  C4.  The package name is the lower-cased identifier template in which the token
  \<open>${PROJECT_NAME}\<close> is replaced by the product name without its spaces, dots and
  hyphens, and the token \<open>${COMPANY_NAME}\<close> by the company name without its spaces, dots
  and hyphens.  A token is found in any letter case: a text whose lower case is that of
  the token, at the head of the template, is replaced.  For the product \<open>My.Game-1\<close>, the
  company \<open>Acme Inc\<close> and the template \<open>com.${COMPANY_NAME}.${PROJECT_NAME}\<close> the
  package name is \<open>com.acmeinc.mygame1\<close>.
\<close>

theorem SetupAppIdentifier_resolves:
  "SetupAppIdentifier env =
     ToLower
       (Replace ''${COMPANY_NAME}''
          (filter (\<lambda>c. c \<noteq> CHR '' '' \<and> c \<noteq> CHR ''.'' \<and> c \<noteq> CHR ''-'') (CompanyName env))
          IgnoreCase
          (Replace ''${PROJECT_NAME}''
             (filter (\<lambda>c. c \<noteq> CHR '' '' \<and> c \<noteq> CHR ''.'' \<and> c \<noteq> CHR ''-'') (ProductName env))
             IgnoreCase (AppIdentifier env)))
   \<and> (\<forall>tok r rest. ToLower tok = ''${project_name}'' \<longrightarrow>
         Replace ''${PROJECT_NAME}'' r IgnoreCase (tok @ rest)
           = r @ Replace ''${PROJECT_NAME}'' r IgnoreCase rest)
   \<and> (\<forall>tok r rest. ToLower tok = ''${company_name}'' \<longrightarrow>
         Replace ''${COMPANY_NAME}'' r IgnoreCase (tok @ rest)
           = r @ Replace ''${COMPANY_NAME}'' r IgnoreCase rest)
   \<and> SetupAppIdentifier
         (env\<lparr>ProductName := ''My.Game-1'', CompanyName := ''Acme Inc'',
              AppIdentifier := ''com.${COMPANY_NAME}.${PROJECT_NAME}''\<rparr>)
       = ''com.acmeinc.mygame1''"
proof (intro conjI allI impI)
  show "SetupAppIdentifier env =
     ToLower
       (Replace ''${COMPANY_NAME}''
          (filter (\<lambda>c. c \<noteq> CHR '' '' \<and> c \<noteq> CHR ''.'' \<and> c \<noteq> CHR ''-'') (CompanyName env))
          IgnoreCase
          (Replace ''${PROJECT_NAME}''
             (filter (\<lambda>c. c \<noteq> CHR '' '' \<and> c \<noteq> CHR ''.'' \<and> c \<noteq> CHR ''-'') (ProductName env))
             IgnoreCase (AppIdentifier env)))"
    by (simp add: SetupAppIdentifier_def Let_def StripName_filter)
next
  fix tok r rest assume "ToLower tok = ''${project_name}''"
  moreover have "ToLower ''${PROJECT_NAME}'' = ''${project_name}''" by code_simp
  ultimately show "Replace ''${PROJECT_NAME}'' r IgnoreCase (tok @ rest)
           = r @ Replace ''${PROJECT_NAME}'' r IgnoreCase rest"
    by (intro Replace_token) simp_all
next
  fix tok r rest assume "ToLower tok = ''${company_name}''"
  moreover have "ToLower ''${COMPANY_NAME}'' = ''${company_name}''" by code_simp
  ultimately show "Replace ''${COMPANY_NAME}'' r IgnoreCase (tok @ rest)
           = r @ Replace ''${COMPANY_NAME}'' r IgnoreCase rest"
    by (intro Replace_token) simp_all
next
  have "ToLower (Replace ''${COMPANY_NAME}'' ''AcmeInc'' IgnoreCase
          (Replace ''${PROJECT_NAME}'' ''MyGame1'' IgnoreCase ''com.${COMPANY_NAME}.${PROJECT_NAME}''))
        = ''com.acmeinc.mygame1''"
    by code_simp
  then show "SetupAppIdentifier
         (env\<lparr>ProductName := ''My.Game-1'', CompanyName := ''Acme Inc'',
              AppIdentifier := ''com.${COMPANY_NAME}.${PROJECT_NAME}''\<rparr>)
       = ''com.acmeinc.mygame1''"
    by (simp add: SetupAppIdentifier_def Let_def StripName_filter)
qed

theorem SetupAppIdentifier_resolves_witness:
  "ToLower ''${Project_Name}'' = ''${project_name}''
   \<and> Replace ''${PROJECT_NAME}'' ''MyGame1'' IgnoreCase (''${Project_Name}'' @ ''.x'') = ''MyGame1.x''
   \<and> ToLower ''${company_name}'' = ''${company_name}''
   \<and> Replace ''${COMPANY_NAME}'' ''AcmeInc'' IgnoreCase (''${company_name}'' @ ''!'') = ''AcmeInc!''
   \<and> SetupAppIdentifier scenario = ''com.acmeinc.mygame1''"
proof -
  have h1: "ToLower ''${Project_Name}'' = ''${project_name}''" by code_simp
  have h2: "ToLower ''${company_name}'' = ''${company_name}''" by code_simp
  have r1: "Replace ''${PROJECT_NAME}'' ''MyGame1'' IgnoreCase ''.x'' = ''.x''" by code_simp
  have r2: "Replace ''${COMPANY_NAME}'' ''AcmeInc'' IgnoreCase ''!'' = ''!''" by code_simp
  have s: "scenario\<lparr>ProductName := ''My.Game-1'', CompanyName := ''Acme Inc'',
              AppIdentifier := ''com.${COMPANY_NAME}.${PROJECT_NAME}''\<rparr> = scenario"
    by (simp add: scenario_def)
  note t = SetupAppIdentifier_resolves [of scenario]
  from t h1 have "Replace ''${PROJECT_NAME}'' ''MyGame1'' IgnoreCase (''${Project_Name}'' @ ''.x'')
      = ''MyGame1'' @ Replace ''${PROJECT_NAME}'' ''MyGame1'' IgnoreCase ''.x''" by blast
  moreover from t h2 have "Replace ''${COMPANY_NAME}'' ''AcmeInc'' IgnoreCase (''${company_name}'' @ ''!'')
      = ''AcmeInc'' @ Replace ''${COMPANY_NAME}'' ''AcmeInc'' IgnoreCase ''!''" by blast
  moreover have "SetupAppIdentifier scenario = ''com.acmeinc.mygame1''"
    using conjunct2 [OF conjunct2 [OF conjunct2 [OF t]]] unfolding s .
  ultimately show ?thesis using h1 h2 r1 r2 by simp
qed



section \<open>Properties of the loop over the files\<close>

text \<open>
  One turn of the loop: a skipped file changes nothing; a dynamic library creates three
  identifiers, appends six lines and starts one process; any other file creates two
  identifiers and appends four lines.
\<close>

lemma ProcessFile_excluded:
  "Excluded (GetFileName file) \<Longrightarrow> ProcessFile env file st = st"
  by (simp add: ProcessFile_def)

lemma ProcessFile_dylib:
  assumes "\<not> Excluded (GetFileName file)" "IsDylib env file"
  shows "ProcessFile env file st =
     \<lparr>configReplaceMap =
        fold Append
          (DylibLines (ObjectIdOf env (guids st)) (ObjectIdOf env (guids st + 1))
             (ObjectIdOf env (guids st + 2)) (GetFileName file)
             (ConvertAbsolutePathToRelative env (DataOutputPath env) file))
          (configReplaceMap st),
      appended = appended st @
          DylibLines (ObjectIdOf env (guids st)) (ObjectIdOf env (guids st + 1))
             (ObjectIdOf env (guids st + 2)) (GetFileName file)
             (ConvertAbsolutePathToRelative env (DataOutputPath env) file),
      guids = guids st + 3,
      effects = effects st @
          [CreateProcess (FixRpathId (GetFileName file) file)
             (CreateProcessResult env (FixRpathId (GetFileName file) file))]\<rparr>"
  using assms by (simp add: ProcessFile_def IsDylib_def ObjectIdOf_def Let_def)

lemma ProcessFile_resource:
  assumes "\<not> Excluded (GetFileName file)" "\<not> IsDylib env file"
  shows "ProcessFile env file st =
     \<lparr>configReplaceMap =
        fold Append
          (ResourceLines (ObjectIdOf env (guids st)) (ObjectIdOf env (guids st + 1))
             (GetFileName file) (ConvertAbsolutePathToRelative env (DataOutputPath env) file))
          (configReplaceMap st),
      appended = appended st @
          ResourceLines (ObjectIdOf env (guids st)) (ObjectIdOf env (guids st + 1))
             (GetFileName file) (ConvertAbsolutePathToRelative env (DataOutputPath env) file),
      guids = guids st + 2,
      effects = effects st\<rparr>"
  using assms by (simp add: ProcessFile_def IsDylib_def ObjectIdOf_def Let_def)

lemma effects_fold_ProcessFile:
  "effects (fold (ProcessFile env) fs st) =
     effects st @
     map (\<lambda>file. CreateProcess (FixRpathId (GetFileName file) file)
                    (CreateProcessResult env (FixRpathId (GetFileName file) file)))
       (filter (IsDylib env) (filter (\<lambda>file. \<not> Excluded (GetFileName file)) fs))"
proof (induction fs arbitrary: st)
  case Nil
  show ?case by simp
next
  case (Cons f fs)
  show ?case
  proof (cases "Excluded (GetFileName f)")
    case True
    then show ?thesis by (simp add: Cons.IH ProcessFile_excluded)
  next
    case False
    then show ?thesis
      by (cases "IsDylib env f") (simp_all add: Cons.IH ProcessFile_dylib ProcessFile_resource)
  qed
qed

lemma guids_fold_ProcessFile:
  "guids (fold (ProcessFile env) fs st) =
     guids st
     + 2 * length (filter (\<lambda>file. \<not> IsDylib env file) (filter (\<lambda>file. \<not> Excluded (GetFileName file)) fs))
     + 3 * length (filter (IsDylib env) (filter (\<lambda>file. \<not> Excluded (GetFileName file)) fs))"
proof (induction fs arbitrary: st)
  case Nil
  show ?case by simp
next
  case (Cons f fs)
  show ?case
  proof (cases "Excluded (GetFileName f)")
    case True
    then show ?thesis by (simp add: Cons.IH ProcessFile_excluded)
  next
    case False
    then show ?thesis
      by (cases "IsDylib env f") (simp_all add: Cons.IH ProcessFile_dylib ProcessFile_resource)
  qed
qed

text \<open>
  The subjects of the appended entries are the identifiers created, each once; the
  identifiers the lines refer to are among the identifiers created.
\<close>

lemma subjects_append:
  "subjects (xs @ ys) = subjects xs @ subjects ys"
  by (simp add: subjects_def List.map_filter_def)

lemma referenced_append:
  "referenced (xs @ ys) = referenced xs @ referenced ys"
  by (simp add: referenced_def)

lemma subjects_DylibLines:
  "subjects (map snd (DylibLines a b c name path)) = [b, c, a]"
  by (simp add: DylibLines_def subjects_def List.map_filter_simps)

lemma subjects_ResourceLines:
  "subjects (map snd (ResourceLines a b name path)) = [b, a]"
  by (simp add: ResourceLines_def subjects_def List.map_filter_simps)

lemma referenced_DylibLines:
  "referenced (map snd (DylibLines a b c name path)) = [a, a, c, b, a]"
  by (simp add: DylibLines_def referenced_def)

lemma referenced_ResourceLines:
  "referenced (map snd (ResourceLines a b name path)) = [a, a, b]"
  by (simp add: ResourceLines_def referenced_def)

lemma guids_mono_ProcessFile:
  "guids st \<le> guids (fold (ProcessFile env) fs st)"
  by (simp add: guids_fold_ProcessFile)

lemma subjects_fold_ProcessFile:
  "mset (subjects (map snd (appended (fold (ProcessFile env) fs st)))) =
     mset (subjects (map snd (appended st)))
     + mset (map (ObjectIdOf env) [guids st ..< guids (fold (ProcessFile env) fs st)])"
proof (induction fs arbitrary: st)
  case Nil
  show ?case by simp
next
  case (Cons f fs)
  let ?st = "ProcessFile env f st"
  have le: "guids ?st \<le> guids (fold (ProcessFile env) fs ?st)"
    by (rule guids_mono_ProcessFile)
  show ?case
  proof (cases "Excluded (GetFileName f)")
    case True
    then show ?thesis by (simp add: Cons.IH ProcessFile_excluded)
  next
    case False
    note ne = False
    show ?thesis
    proof (cases "IsDylib env f")
      case True
      with ne have g: "guids ?st = guids st + 3" by (simp add: ProcessFile_dylib)
      have "[guids st ..< guids (fold (ProcessFile env) fs ?st)]
          = [guids st, guids st + 1, guids st + 2] @ [guids ?st ..< guids (fold (ProcessFile env) fs ?st)]"
        using le unfolding g by (simp add: upt_conv_Cons eval_nat_numeral)
      then show ?thesis
        using ne True by (simp add: Cons.IH g) (simp add: ProcessFile_dylib subjects_append subjects_DylibLines)
    next
      case False
      with ne have g: "guids ?st = guids st + 2" by (simp add: ProcessFile_resource)
      have "[guids st ..< guids (fold (ProcessFile env) fs ?st)]
          = [guids st, guids st + 1] @ [guids ?st ..< guids (fold (ProcessFile env) fs ?st)]"
        using le unfolding g by (simp add: upt_conv_Cons eval_nat_numeral)
      then show ?thesis
        using ne False by (simp add: Cons.IH g) (simp add: ProcessFile_resource subjects_append subjects_ResourceLines)
    qed
  qed
qed

lemma ObjectIdOf_image:
  "i < k \<Longrightarrow> ObjectIdOf env (g + i) \<in> ObjectIdOf env ` {g ..< g + k}"
  by (rule imageI) simp

lemma referenced_ProcessFile:
  "set (referenced (map snd (appended (ProcessFile env f st)))) \<subseteq>
     set (referenced (map snd (appended st)))
     \<union> ObjectIdOf env ` {guids st ..< guids (ProcessFile env f st)}"
proof (cases "Excluded (GetFileName f)")
  case True
  then show ?thesis by (simp add: ProcessFile_excluded)
next
  case False
  note ne = False
  show ?thesis
  proof (cases "IsDylib env f")
    case True
    have "ObjectIdOf env (guids st) \<in> ObjectIdOf env ` {guids st ..< guids st + 3}"
      using ObjectIdOf_image [of 0 3 env "guids st"] by simp
    moreover have "ObjectIdOf env (guids st + 1) \<in> ObjectIdOf env ` {guids st ..< guids st + 3}"
      by (rule ObjectIdOf_image) simp
    moreover have "ObjectIdOf env (guids st + 2) \<in> ObjectIdOf env ` {guids st ..< guids st + 3}"
      by (rule ObjectIdOf_image) simp
    ultimately show ?thesis
      using ne True
      by (simp add: ProcessFile_dylib referenced_append referenced_DylibLines le_supI2)
  next
    case False
    have "ObjectIdOf env (guids st) \<in> ObjectIdOf env ` {guids st ..< guids st + 2}"
      using ObjectIdOf_image [of 0 2 env "guids st"] by simp
    moreover have "ObjectIdOf env (guids st + 1) \<in> ObjectIdOf env ` {guids st ..< guids st + 2}"
      by (rule ObjectIdOf_image) simp
    ultimately show ?thesis
      using ne False
      by (simp add: ProcessFile_resource referenced_append referenced_ResourceLines le_supI2)
  qed
qed

lemma guids_ProcessFile_le:
  "guids st \<le> guids (ProcessFile env f st)"
  using guids_mono_ProcessFile [of st env "[f]"] by simp

lemma referenced_fold_ProcessFile:
  "set (referenced (map snd (appended (fold (ProcessFile env) fs st)))) \<subseteq>
     set (referenced (map snd (appended st)))
     \<union> ObjectIdOf env ` {guids st ..< guids (fold (ProcessFile env) fs st)}"
proof (induction fs arbitrary: st)
  case Nil
  show ?case by simp
next
  case (Cons f fs)
  define st1 where "st1 = ProcessFile env f st"
  define st2 where "st2 = fold (ProcessFile env) fs st1"
  have le1: "guids st \<le> guids st1"
    unfolding st1_def by (rule guids_ProcessFile_le)
  have le2: "guids st1 \<le> guids st2"
    unfolding st2_def by (rule guids_mono_ProcessFile)
  have IH: "set (referenced (map snd (appended st2))) \<subseteq>
     set (referenced (map snd (appended st1))) \<union> ObjectIdOf env ` {guids st1 ..< guids st2}"
    unfolding st2_def by (rule Cons.IH)
  have step: "set (referenced (map snd (appended st1))) \<subseteq>
     set (referenced (map snd (appended st))) \<union> ObjectIdOf env ` {guids st ..< guids st1}"
    unfolding st1_def by (rule referenced_ProcessFile)
  have "{guids st ..< guids st1} \<union> {guids st1 ..< guids st2} = {guids st ..< guids st2}"
    using le1 le2 by (rule ivl_disj_un_two(3))
  then have "ObjectIdOf env ` {guids st ..< guids st1} \<union> ObjectIdOf env ` {guids st1 ..< guids st2}
      = ObjectIdOf env ` {guids st ..< guids st2}"
    by (simp only: image_Un [symmetric])
  with IH step have "set (referenced (map snd (appended st2))) \<subseteq>
     set (referenced (map snd (appended st))) \<union> ObjectIdOf env ` {guids st ..< guids st2}"
    by blast
  then show ?case by (simp add: st1_def st2_def)
qed

lemma BuildProject_guids:
  "guids (BuildProject env m) =
     2 * (length (Artifacts env) - length (Libraries env)) + 3 * length (Libraries env)"
proof -
  have "length (filter (IsDylib env) (Artifacts env))
      + length (filter (\<lambda>file. \<not> IsDylib env file) (Artifacts env)) = length (Artifacts env)"
    by (rule sum_length_filter_compl)
  then have "length (filter (\<lambda>file. \<not> IsDylib env file) (Artifacts env))
      = length (Artifacts env) - length (Libraries env)"
    by (simp add: Libraries_def)
  then show ?thesis
    by (simp add: BuildProject_def guids_fold_ProcessFile Artifacts_def Libraries_def)
qed

lemma BuildProject_subjects:
  "mset (subjects (map snd (appended (BuildProject env m))))
     = mset (map (ObjectIdOf env) [0 ..< guids (BuildProject env m)])"
proof -
  let ?st0 = "\<lparr>configReplaceMap = m, appended = [], guids = 0,
        effects =
          [MoveFile (PathJoin (DataOutputPath env) ''Dotnet/DOTNET-LICENSE.TXT'')
             (PathJoin (DataOutputPath env) ''Dotnet/LICENSE.TXT'') True,
           MoveFile (PathJoin (DataOutputPath env) ''Dotnet/DOTNET-THIRD-PARTY-NOTICES.TXT'')
             (PathJoin (DataOutputPath env) ''Dotnet/THIRD-PARTY-NOTICES.TXT'') True,
           DirectoryGetFiles (DataOutputPath env) ''*'' AllDirectories]\<rparr>"
  have "mset (subjects (map snd (appended (fold (ProcessFile env) (Files env) ?st0)))) =
     mset (subjects (map snd (appended ?st0)))
     + mset (map (ObjectIdOf env) [guids ?st0 ..< guids (fold (ProcessFile env) (Files env) ?st0)])"
    by (rule subjects_fold_ProcessFile)
  then show ?thesis
    unfolding BuildProject_def by (simp add: subjects_def List.map_filter_simps)
qed

lemma BuildProject_referenced:
  "set (referenced (map snd (appended (BuildProject env m))))
     \<subseteq> ObjectIdOf env ` {0 ..< guids (BuildProject env m)}"
proof -
  let ?st0 = "\<lparr>configReplaceMap = m, appended = [], guids = 0,
        effects =
          [MoveFile (PathJoin (DataOutputPath env) ''Dotnet/DOTNET-LICENSE.TXT'')
             (PathJoin (DataOutputPath env) ''Dotnet/LICENSE.TXT'') True,
           MoveFile (PathJoin (DataOutputPath env) ''Dotnet/DOTNET-THIRD-PARTY-NOTICES.TXT'')
             (PathJoin (DataOutputPath env) ''Dotnet/THIRD-PARTY-NOTICES.TXT'') True,
           DirectoryGetFiles (DataOutputPath env) ''*'' AllDirectories]\<rparr>"
  have "set (referenced (map snd (appended (fold (ProcessFile env) (Files env) ?st0)))) \<subseteq>
     set (referenced (map snd (appended ?st0)))
     \<union> ObjectIdOf env ` {guids ?st0 ..< guids (fold (ProcessFile env) (Files env) ?st0)}"
    by (rule referenced_fold_ProcessFile)
  then show ?thesis
    unfolding BuildProject_def by (simp add: referenced_def)
qed

lemma guids_ProcessFile:
  "guids (ProcessFile env file st) =
     guids st + (if Excluded (GetFileName file) then 0 else if IsDylib env file then 3 else 2)"
  by (simp add: ProcessFile_excluded ProcessFile_dylib ProcessFile_resource)

lemma count_list_distinct:
  "distinct xs \<Longrightarrow> x \<in> set xs \<Longrightarrow> count_list xs x = 1"
  by (induction xs) auto

text \<open>
  C1, as stated, fails.  For the listing \<open>data.bin\<close> there is one artifact and no
  library, and the loop creates two identifiers (the file identifier and the identifier of
  the build-file entry), not \<open>(1 - 0) + 3 * 0 = 1\<close>.
\<close>

theorem project_graph_identifiers_counterexample:
  "Artifacts (scenario\<lparr>Files := [''data.bin'']\<rparr>) = [''data.bin'']
   \<and> Libraries (scenario\<lparr>Files := [''data.bin'']\<rparr>) = []
   \<and> guids (BuildProject (scenario\<lparr>Files := [''data.bin'']\<rparr>) []) = 2
   \<and> map (ObjectIdOf (scenario\<lparr>Files := [''data.bin'']\<rparr>)) [0 ..< 2]
       = [''000000000000000000000000'', ''100000000000000000000000'']
   \<and> guids (BuildProject (scenario\<lparr>Files := [''data.bin'']\<rparr>) [])
       \<noteq> (length (Artifacts (scenario\<lparr>Files := [''data.bin'']\<rparr>))
            - length (Libraries (scenario\<lparr>Files := [''data.bin'']\<rparr>)))
          + 3 * length (Libraries (scenario\<lparr>Files := [''data.bin'']\<rparr>))"
  by code_simp

text \<open>
  C1, amended.  With \<open>N\<close> artifacts (the files of the listing that are not skipped), of
  which \<open>M\<close> are treated as dynamic libraries, the loop creates exactly
  \<open>2 * (N - M) + 3 * M\<close> identifiers: none for a skipped file, three for a dynamic
  library, two for any other file.  As multisets, the subjects of the appended entries are
  the identifiers created.  When the identifiers created are pairwise distinct, the
  subjects of the appended entries are pairwise distinct and there are exactly
  \<open>2 * (N - M) + 3 * M\<close> different identifiers among them.
\<close>

theorem project_graph_identifiers:
  "guids (BuildProject env m) =
     2 * (length (Artifacts env) - length (Libraries env)) + 3 * length (Libraries env)
   \<and> mset (subjects (map snd (appended (BuildProject env m))))
       = mset (map (ObjectIdOf env) [0 ..< guids (BuildProject env m)])
   \<and> guids (ProcessFile env file st) =
       guids st + (if Excluded (GetFileName file) then 0 else if IsDylib env file then 3 else 2)
   \<and> (distinct (map (ObjectIdOf env) [0 ..< guids (BuildProject env m)]) \<longrightarrow>
         distinct (subjects (map snd (appended (BuildProject env m))))
       \<and> card (set (subjects (map snd (appended (BuildProject env m)))))
           = 2 * (length (Artifacts env) - length (Libraries env)) + 3 * length (Libraries env)
       \<and> card (ObjectIdOf env ` {0 ..< guids (BuildProject env m)})
           = 2 * (length (Artifacts env) - length (Libraries env)) + 3 * length (Libraries env))"
proof (intro conjI impI)
  show "guids (BuildProject env m) =
     2 * (length (Artifacts env) - length (Libraries env)) + 3 * length (Libraries env)"
    by (rule BuildProject_guids)
  show "mset (subjects (map snd (appended (BuildProject env m))))
       = mset (map (ObjectIdOf env) [0 ..< guids (BuildProject env m)])"
    by (rule BuildProject_subjects)
  show "guids (ProcessFile env file st) =
       guids st + (if Excluded (GetFileName file) then 0 else if IsDylib env file then 3 else 2)"
    by (rule guids_ProcessFile)
next
  assume d: "distinct (map (ObjectIdOf env) [0 ..< guids (BuildProject env m)])"
  define S where "S = subjects (map snd (appended (BuildProject env m)))"
  define A where "A = map (ObjectIdOf env) [0 ..< guids (BuildProject env m)]"
  have ms: "mset S = mset A"
    unfolding S_def A_def by (rule BuildProject_subjects)
  have dA: "distinct A"
    using d unfolding A_def .
  have lA: "length A = guids (BuildProject env m)"
    by (simp add: A_def)
  show dS: "distinct (subjects (map snd (appended (BuildProject env m))))"
    using ms dA unfolding S_def [symmetric] by (metis mset_eq_imp_distinct_iff)
  have "length S = length A"
    using ms by (rule mset_eq_length)
  with dS have "card (set S) = guids (BuildProject env m)"
    unfolding S_def [symmetric] lA by (simp add: distinct_card)
  then show "card (set (subjects (map snd (appended (BuildProject env m)))))
      = 2 * (length (Artifacts env) - length (Libraries env)) + 3 * length (Libraries env)"
    unfolding S_def BuildProject_guids .
  have "card (set A) = length A"
    using dA by (rule distinct_card)
  moreover have "set A = ObjectIdOf env ` {0 ..< guids (BuildProject env m)}"
    by (simp add: A_def)
  ultimately have "card (ObjectIdOf env ` {0 ..< guids (BuildProject env m)})
      = guids (BuildProject env m)"
    using lA by simp
  then show "card (ObjectIdOf env ` {0 ..< guids (BuildProject env m)})
      = 2 * (length (Artifacts env) - length (Libraries env)) + 3 * length (Libraries env)"
    unfolding BuildProject_guids .
qed

theorem project_graph_identifiers_witness:
  "Artifacts scenario = [''lib.dylib'', ''data.bin'']
   \<and> Libraries scenario = [''lib.dylib'']
   \<and> guids (BuildProject scenario []) = 5
   \<and> guids (ProcessFile scenario ''lib.dylib'' \<lparr>configReplaceMap = [], appended = [], guids = 0, effects = []\<rparr>) = 3
   \<and> guids (ProcessFile scenario ''data.bin'' \<lparr>configReplaceMap = [], appended = [], guids = 3, effects = []\<rparr>) = 5
   \<and> distinct (map (ObjectIdOf scenario) [0 ..< guids (BuildProject scenario [])])
   \<and> distinct (subjects (map snd (appended (BuildProject scenario []))))
   \<and> card (set (subjects (map snd (appended (BuildProject scenario []))))) = 5
   \<and> card (ObjectIdOf scenario ` {0 ..< guids (BuildProject scenario [])}) = 5"
proof -
  have a: "Artifacts scenario = [''lib.dylib'', ''data.bin'']" by code_simp
  have b: "Libraries scenario = [''lib.dylib'']" by code_simp
  have c: "\<not> Excluded (GetFileName ''lib.dylib'')" "IsDylib scenario ''lib.dylib''"
    "\<not> Excluded (GetFileName ''data.bin'')" "\<not> IsDylib scenario ''data.bin''"
    by code_simp+
  have h: "distinct (map (ObjectIdOf scenario) [0 ..< guids (BuildProject scenario [])])"
    by code_simp
  note t1 = project_graph_identifiers [of scenario "[]" "''lib.dylib''"
        "\<lparr>configReplaceMap = [], appended = [], guids = 0, effects = []\<rparr>", unfolded a b]
  note t2 = project_graph_identifiers [of scenario "[]" "''data.bin''"
        "\<lparr>configReplaceMap = [], appended = [], guids = 3, effects = []\<rparr>", unfolded a b]
  from t1 have g: "guids (BuildProject scenario []) = 5"
    by simp
  from t1 c have p1: "guids (ProcessFile scenario ''lib.dylib''
      \<lparr>configReplaceMap = [], appended = [], guids = 0, effects = []\<rparr>) = 3"
    by simp
  from t2 c have p2: "guids (ProcessFile scenario ''data.bin''
      \<lparr>configReplaceMap = [], appended = [], guids = 3, effects = []\<rparr>) = 5"
    by simp
  have v: "2 * (length [''lib.dylib'', ''data.bin''] - length [''lib.dylib''])
      + 3 * length [''lib.dylib''] = (5::nat)"
    by simp
  note imp = conjunct2 [OF conjunct2 [OF conjunct2 [OF t1]], unfolded v]
  from imp h have q: "distinct (subjects (map snd (appended (BuildProject scenario []))))
       \<and> card (set (subjects (map snd (appended (BuildProject scenario []))))) = 5
       \<and> card (ObjectIdOf scenario ` {0 ..< guids (BuildProject scenario [])}) = 5"
    by (rule mp)
  from a b g p1 p2 h q show ?thesis by (intro conjI) simp_all
qed

text \<open>
  C2.  When the identifiers created during the loop are pairwise distinct, no two appended
  entries have the same subject, and every identifier that a membership line lists or a
  \<open>fileRef\<close> field names is the subject of exactly one file-reference or build-file
  entry.
\<close>

theorem no_dangling_reference:
  assumes "distinct (map (ObjectIdOf env) [0 ..< guids (BuildProject env m)])"
  shows "distinct (subjects (map snd (appended (BuildProject env m))))
       \<and> (\<forall>x \<in> set (referenced (map snd (appended (BuildProject env m)))).
            count_list (subjects (map snd (appended (BuildProject env m)))) x = 1)"
proof -
  define S where "S = subjects (map snd (appended (BuildProject env m)))"
  define A where "A = map (ObjectIdOf env) [0 ..< guids (BuildProject env m)]"
  have ms: "mset S = mset A"
    unfolding S_def A_def by (rule BuildProject_subjects)
  have dA: "distinct A"
    using assms unfolding A_def .
  have dS: "distinct S"
    using ms dA by (metis mset_eq_imp_distinct_iff)
  have "count_list S x = 1" if "x \<in> set (referenced (map snd (appended (BuildProject env m))))" for x
  proof -
    from BuildProject_referenced [of env m] that
    have "x \<in> ObjectIdOf env ` {0 ..< guids (BuildProject env m)}" by (rule subsetD)
    then have "x \<in> set A" by (simp add: A_def)
    with ms have "x \<in> set S" by (metis mset_eq_setD)
    with dS show ?thesis by (rule count_list_distinct)
  qed
  with dS show ?thesis unfolding S_def by simp
qed

theorem no_dangling_reference_witness:
  "distinct (map (ObjectIdOf scenario) [0 ..< guids (BuildProject scenario [])])
   \<and> distinct (subjects (map snd (appended (BuildProject scenario []))))
   \<and> ''200000000000000000000000'' \<in> set (referenced (map snd (appended (BuildProject scenario []))))
   \<and> count_list (subjects (map snd (appended (BuildProject scenario [])))) ''200000000000000000000000'' = 1"
proof -
  have h: "distinct (map (ObjectIdOf scenario) [0 ..< guids (BuildProject scenario [])])"
    by code_simp
  have r: "''200000000000000000000000'' \<in> set (referenced (map snd (appended (BuildProject scenario []))))"
    by code_simp
  note t = no_dangling_reference [OF h]
  from t have d: "distinct (subjects (map snd (appended (BuildProject scenario []))))"
    by (rule conjunct1)
  from t have "\<forall>x \<in> set (referenced (map snd (appended (BuildProject scenario [])))).
            count_list (subjects (map snd (appended (BuildProject scenario [])))) x = 1"
    by (rule conjunct2)
  then have "count_list (subjects (map snd (appended (BuildProject scenario [])))) ''200000000000000000000000'' = 1"
    using r by (rule bspec)
  with h d r show ?thesis by (intro conjI)
qed

section \<open>Properties of the calls\<close>

text \<open>
  The calls of the loop are the two renamings, the listing, and one process for each
  dynamic library, in the order of the listing; the exit codes have no part in what the
  loop does.
\<close>

lemma BuildProject_effects:
  "effects (BuildProject env m) =
     [MoveFile (PathJoin (DataOutputPath env) ''Dotnet/DOTNET-LICENSE.TXT'')
        (PathJoin (DataOutputPath env) ''Dotnet/LICENSE.TXT'') True,
      MoveFile (PathJoin (DataOutputPath env) ''Dotnet/DOTNET-THIRD-PARTY-NOTICES.TXT'')
        (PathJoin (DataOutputPath env) ''Dotnet/THIRD-PARTY-NOTICES.TXT'') True,
      DirectoryGetFiles (DataOutputPath env) ''*'' AllDirectories]
     @ map (\<lambda>file. CreateProcess (FixRpathId (GetFileName file) file)
                      (CreateProcessResult env (FixRpathId (GetFileName file) file)))
         (Libraries env)"
  by (simp add: BuildProject_def effects_fold_ProcessFile Libraries_def Artifacts_def)

lemma filter_IsCreateProcess_map:
  "filter IsCreateProcess (map (\<lambda>file. CreateProcess (p file) (r file)) fs)
     = map (\<lambda>file. CreateProcess (p file) (r file)) fs"
  by (induction fs) simp_all

lemma scenario_Libraries:
  "Libraries (env\<lparr>Files := [''lib.dylib'', ''data.bin'']\<rparr>) = [''lib.dylib'']"
proof (cases "EndsWithSearchCase env")
  case CaseSensitive
  then show ?thesis
    by (simp add: Libraries_def Artifacts_def IsDylib_def EndsWith_def GetFileName_def
        IsSeparator_def Excluded_def CharEquals_def)
next
  case IgnoreCase
  then show ?thesis
    by (simp add: Libraries_def Artifacts_def IsDylib_def EndsWith_def GetFileName_def
        IsSeparator_def Excluded_def CharEquals_def ToLowerChar_def)
qed

lemma PackageFiles_not_in_BuildProject:
  "PackageFiles \<notin> set (effects (BuildProject env m))"
  by (auto simp add: BuildProject_effects)

lemma ProcessFile_exit_code:
  assumes "configReplaceMap st' = configReplaceMap st" "appended st' = appended st"
    "guids st' = guids st" "map WithoutExitCode (effects st') = map WithoutExitCode (effects st)"
  shows "configReplaceMap (ProcessFile (env\<lparr>CreateProcessResult := r\<rparr>) f st')
           = configReplaceMap (ProcessFile env f st)
       \<and> appended (ProcessFile (env\<lparr>CreateProcessResult := r\<rparr>) f st')
           = appended (ProcessFile env f st)
       \<and> guids (ProcessFile (env\<lparr>CreateProcessResult := r\<rparr>) f st')
           = guids (ProcessFile env f st)
       \<and> map WithoutExitCode (effects (ProcessFile (env\<lparr>CreateProcessResult := r\<rparr>) f st'))
           = map WithoutExitCode (effects (ProcessFile env f st))"
  using assms by (simp add: ProcessFile_def Let_def)

lemma fold_ProcessFile_exit_code:
  assumes "configReplaceMap st' = configReplaceMap st" "appended st' = appended st"
    "guids st' = guids st" "map WithoutExitCode (effects st') = map WithoutExitCode (effects st)"
  shows "configReplaceMap (fold (ProcessFile (env\<lparr>CreateProcessResult := r\<rparr>)) fs st')
           = configReplaceMap (fold (ProcessFile env) fs st)
       \<and> map WithoutExitCode (effects (fold (ProcessFile (env\<lparr>CreateProcessResult := r\<rparr>)) fs st'))
           = map WithoutExitCode (effects (fold (ProcessFile env) fs st))"
  using assms
proof (induction fs arbitrary: st st')
  case Nil
  then show ?case by simp
next
  case (Cons f fs)
  note step = ProcessFile_exit_code [OF Cons.prems, where env = env and r = r and f = f]
  have "configReplaceMap (fold (ProcessFile (env\<lparr>CreateProcessResult := r\<rparr>)) fs
            (ProcessFile (env\<lparr>CreateProcessResult := r\<rparr>) f st'))
           = configReplaceMap (fold (ProcessFile env) fs (ProcessFile env f st))
       \<and> map WithoutExitCode (effects (fold (ProcessFile (env\<lparr>CreateProcessResult := r\<rparr>)) fs
            (ProcessFile (env\<lparr>CreateProcessResult := r\<rparr>) f st')))
           = map WithoutExitCode (effects (fold (ProcessFile env) fs (ProcessFile env f st)))"
    using step by (intro Cons.IH) simp_all
  then show ?case by simp
qed

lemma BuildProject_exit_code:
  "configReplaceMap (BuildProject (env\<lparr>CreateProcessResult := r\<rparr>) m)
     = configReplaceMap (BuildProject env m)
   \<and> map WithoutExitCode (effects (BuildProject (env\<lparr>CreateProcessResult := r\<rparr>) m))
     = map WithoutExitCode (effects (BuildProject env m))"
proof -
  have sel: "Files (env\<lparr>CreateProcessResult := r\<rparr>) = Files env"
    "DataOutputPath (env\<lparr>CreateProcessResult := r\<rparr>) = DataOutputPath env"
    by simp_all
  show ?thesis
    unfolding BuildProject_def sel by (rule fold_ProcessFile_exit_code) simp_all
qed

text \<open>
  C7.  The processes that the loop starts are, in the order of the listing, one for each
  artifact treated as a dynamic library: \<open>install_name_tool\<close> with the arguments
  \<open>-id "@rpath/<name>" "<file>"\<close>, the file being the path as listed.  An artifact that
  is not a dynamic library starts no process, and its four lines are a build-file entry
  "in Resources", a plain file reference, a line of the files group and a line of the
  resources group.  For the listing \<open>lib.dylib\<close>, \<open>data.bin\<close> exactly one process is
  started, for \<open>lib.dylib\<close>.
\<close>

theorem one_fixup_per_library:
  "filter IsCreateProcess (effects (BuildProject env m)) =
     map (\<lambda>file.
            CreateProcess
              \<lparr>FileName = ''install_name_tool'',
               Arguments = ''-id \"@rpath/'' @ GetFileName file @ ''\" \"'' @ file @ ''\"''\<rparr>
              (CreateProcessResult env
                 \<lparr>FileName = ''install_name_tool'',
                  Arguments = ''-id \"@rpath/'' @ GetFileName file @ ''\" \"'' @ file @ ''\"''\<rparr>))
       (Libraries env)
   \<and> (\<forall>file st. \<not> Excluded (GetFileName file) \<and> \<not> IsDylib env file \<longrightarrow>
         effects (ProcessFile env file st) = effects st
         \<and> (\<exists>fileId fileRefId projectPath.
               appended (ProcessFile env file st) = appended st @
                 [(''${PBXBuildFile}'',
                     BuildFileEntry fileRefId (GetFileName file) Resources fileId),
                  (''${PBXFileReference}'',
                     FileReferenceEntry fileId (GetFileName file) False projectPath),
                  (''${PBXFilesGroup}'', MembershipLine fileId (GetFileName file) None),
                  (''${PBXResourcesGroup}'',
                     MembershipLine fileRefId (GetFileName file) (Some Resources))]))
   \<and> filter IsCreateProcess (effects (BuildProject (env\<lparr>Files := [''lib.dylib'', ''data.bin'']\<rparr>) m)) =
       [CreateProcess
          \<lparr>FileName = ''install_name_tool'',
           Arguments = ''-id \"@rpath/lib.dylib\" \"lib.dylib\"''\<rparr>
          (CreateProcessResult env
             \<lparr>FileName = ''install_name_tool'',
              Arguments = ''-id \"@rpath/lib.dylib\" \"lib.dylib\"''\<rparr>)]"
proof (intro conjI allI impI)
  show "filter IsCreateProcess (effects (BuildProject env m)) =
     map (\<lambda>file.
            CreateProcess
              \<lparr>FileName = ''install_name_tool'',
               Arguments = ''-id \"@rpath/'' @ GetFileName file @ ''\" \"'' @ file @ ''\"''\<rparr>
              (CreateProcessResult env
                 \<lparr>FileName = ''install_name_tool'',
                  Arguments = ''-id \"@rpath/'' @ GetFileName file @ ''\" \"'' @ file @ ''\"''\<rparr>))
       (Libraries env)"
    unfolding BuildProject_effects FixRpathId_def
    by (simp add: filter_IsCreateProcess_map)
next
  fix f st
  assume "\<not> Excluded (GetFileName f) \<and> \<not> IsDylib env f"
  then show "effects (ProcessFile env f st) = effects st"
    by (simp add: ProcessFile_resource)
next
  fix f st
  assume "\<not> Excluded (GetFileName f) \<and> \<not> IsDylib env f"
  then have "appended (ProcessFile env f st) = appended st @
      ResourceLines (ObjectIdOf env (guids st)) (ObjectIdOf env (guids st + 1))
        (GetFileName f) (ConvertAbsolutePathToRelative env (DataOutputPath env) f)"
    by (simp add: ProcessFile_resource)
  then show "\<exists>fileId fileRefId projectPath.
               appended (ProcessFile env f st) = appended st @
                 [(''${PBXBuildFile}'',
                     BuildFileEntry fileRefId (GetFileName f) Resources fileId),
                  (''${PBXFileReference}'',
                     FileReferenceEntry fileId (GetFileName f) False projectPath),
                  (''${PBXFilesGroup}'', MembershipLine fileId (GetFileName f) None),
                  (''${PBXResourcesGroup}'',
                     MembershipLine fileRefId (GetFileName f) (Some Resources))]"
    unfolding ResourceLines_def by blast
next
  have g: "GetFileName ''lib.dylib'' = ''lib.dylib''" by code_simp
  show "filter IsCreateProcess (effects (BuildProject (env\<lparr>Files := [''lib.dylib'', ''data.bin'']\<rparr>) m)) =
       [CreateProcess
          \<lparr>FileName = ''install_name_tool'',
           Arguments = ''-id \"@rpath/lib.dylib\" \"lib.dylib\"''\<rparr>
          (CreateProcessResult env
             \<lparr>FileName = ''install_name_tool'',
              Arguments = ''-id \"@rpath/lib.dylib\" \"lib.dylib\"''\<rparr>)]"
    unfolding BuildProject_effects scenario_Libraries FixRpathId_def
    by (simp add: g)
qed

theorem one_fixup_per_library_witness:
  "\<not> Excluded (GetFileName ''data.bin'') \<and> \<not> IsDylib scenario ''data.bin''
   \<and> effects (ProcessFile scenario ''data.bin''
        \<lparr>configReplaceMap = [], appended = [], guids = 3, effects = []\<rparr>) = []
   \<and> filter IsCreateProcess (effects (BuildProject scenario [])) =
       [CreateProcess
          \<lparr>FileName = ''install_name_tool'',
           Arguments = ''-id \"@rpath/lib.dylib\" \"lib.dylib\"''\<rparr> 1]"
proof -
  have h: "\<not> Excluded (GetFileName ''data.bin'') \<and> \<not> IsDylib scenario ''data.bin''"
    by code_simp
  have l: "Libraries scenario = [''lib.dylib'']"
    by code_simp
  have g: "GetFileName ''lib.dylib'' = ''lib.dylib''"
    by code_simp
  have r: "CreateProcessResult scenario = (\<lambda>proc. 1)"
    by (simp add: scenario_def)
  note t = one_fixup_per_library [of scenario "[]"]
  from t have "filter IsCreateProcess (effects (BuildProject scenario [])) =
     map (\<lambda>file.
            CreateProcess
              \<lparr>FileName = ''install_name_tool'',
               Arguments = ''-id \"@rpath/'' @ GetFileName file @ ''\" \"'' @ file @ ''\"''\<rparr>
              (CreateProcessResult scenario
                 \<lparr>FileName = ''install_name_tool'',
                  Arguments = ''-id \"@rpath/'' @ GetFileName file @ ''\" \"'' @ file @ ''\"''\<rparr>))
       (Libraries scenario)"
    by (rule conjunct1)
  then have a: "filter IsCreateProcess (effects (BuildProject scenario [])) =
       [CreateProcess
          \<lparr>FileName = ''install_name_tool'',
           Arguments = ''-id \"@rpath/lib.dylib\" \"lib.dylib\"''\<rparr> 1]"
    unfolding l r by (simp add: g)
  from t h have b: "effects (ProcessFile scenario ''data.bin''
        \<lparr>configReplaceMap = [], appended = [], guids = 3, effects = []\<rparr>) = []"
    by simp
  from h a b show ?thesis by simp
qed

text \<open>
  C8, as stated, fails.  In the scenario the process returns 1, the run succeeds, and
  \<open>OnPostProcess\<close> logs nothing at all: the exit code of the process is not logged.
\<close>

theorem exit_code_logged_counterexample:
  "CreateProcess (FixRpathId ''lib.dylib'' ''lib.dylib'') 1 \<in> set (snd (OnPostProcess scenario))
   \<and> filter IsLog (snd (OnPostProcess scenario)) = []
   \<and> fst (OnPostProcess scenario) = False"
  by code_simp

text \<open>
  C8, amended.  The exit code of a process is discarded: whatever the processes return,
  \<open>OnPostProcess\<close> returns the same value and makes the same calls with the same
  arguments, in the same order (the later processes and the later steps among them).
\<close>

theorem exit_code_discarded:
  "fst (OnPostProcess (env\<lparr>CreateProcessResult := r\<rparr>)) = fst (OnPostProcess env)
   \<and> map WithoutExitCode (snd (OnPostProcess (env\<lparr>CreateProcessResult := r\<rparr>)))
       = map WithoutExitCode (snd (OnPostProcess env))"
proof -
  have a: "SetupAppIdentifier (env\<lparr>CreateProcessResult := r\<rparr>) = SetupAppIdentifier env"
    by (simp add: SetupAppIdentifier_def)
  have b: "InitialReplaceMap (env\<lparr>CreateProcessResult := r\<rparr>) = InitialReplaceMap env"
    by (simp add: InitialReplaceMap_def GetAppName_def fun_eq_iff)
  note c = BuildProject_exit_code
    [where env = env and r = r and m = "InitialReplaceMap env (SetupAppIdentifier env)"]
  show ?thesis
    unfolding OnPostProcess_def Let_def a b
    using c by simp
qed

theorem exit_code_discarded_witness:
  "fst (OnPostProcess (scenario\<lparr>CreateProcessResult := (\<lambda>proc. 0)\<rparr>)) = fst (OnPostProcess scenario)
   \<and> map WithoutExitCode (snd (OnPostProcess (scenario\<lparr>CreateProcessResult := (\<lambda>proc. 0)\<rparr>)))
       = map WithoutExitCode (snd (OnPostProcess scenario))
   \<and> CreateProcess (FixRpathId ''lib.dylib'' ''lib.dylib'') 0
       \<in> set (snd (OnPostProcess (scenario\<lparr>CreateProcessResult := (\<lambda>proc. 0)\<rparr>)))
   \<and> CreateProcess (FixRpathId ''lib.dylib'' ''lib.dylib'') 1 \<in> set (snd (OnPostProcess scenario))"
proof -
  have a: "CreateProcess (FixRpathId ''lib.dylib'' ''lib.dylib'') 0
       \<in> set (snd (OnPostProcess (scenario\<lparr>CreateProcessResult := (\<lambda>proc. 0)\<rparr>)))"
    by code_simp
  have b: "CreateProcess (FixRpathId ''lib.dylib'' ''lib.dylib'') 1 \<in> set (snd (OnPostProcess scenario))"
    by code_simp
  from exit_code_discarded [where env = scenario and r = "\<lambda>proc. 0"] a b
  show ?thesis by (intro conjI) simp_all
qed

text \<open>
  C9.  When packaging is to be skipped, the packaging of the cooker is never called; and
  when the package name is valid and neither the copy of the template nor the substitution
  fails, \<open>OnPostProcess\<close> succeeds and its last call is the substitution into the
  project file.
\<close>

theorem skip_packaging_stops:
  assumes "SkipPackaging env"
  shows "PackageFiles \<notin> set (snd (OnPostProcess env))
       \<and> (\<not> HasInvalidCharacter (SetupAppIdentifier env) \<and> SetupAppIdentifier env \<noteq> []
            \<and> \<not> CopyDirectoryFails env \<and> \<not> ReplaceInFileFails env \<longrightarrow>
          fst (OnPostProcess env) = False
          \<and> (\<exists>m. last (snd (OnPostProcess env)) =
                ReplaceInFile
                  (PathJoin (OriginalOutputPath env) ''FlaxGame.xcodeproj/project.pbxproj'') m))"
  using assms by (simp add: OnPostProcess_def Let_def PackageFiles_not_in_BuildProject)

theorem skip_packaging_stops_witness:
  "SkipPackaging scenario
   \<and> PackageFiles \<notin> set (snd (OnPostProcess scenario))
   \<and> \<not> HasInvalidCharacter (SetupAppIdentifier scenario) \<and> SetupAppIdentifier scenario \<noteq> []
   \<and> \<not> CopyDirectoryFails scenario \<and> \<not> ReplaceInFileFails scenario
   \<and> fst (OnPostProcess scenario) = False
   \<and> (\<exists>m. last (snd (OnPostProcess scenario)) =
         ReplaceInFile ''/out/FlaxGame.xcodeproj/project.pbxproj'' m)"
proof -
  have h: "SkipPackaging scenario"
    by (simp add: scenario_def)
  have k: "\<not> HasInvalidCharacter (SetupAppIdentifier scenario) \<and> SetupAppIdentifier scenario \<noteq> []
      \<and> \<not> CopyDirectoryFails scenario \<and> \<not> ReplaceInFileFails scenario"
    by code_simp
  have p: "PathJoin (OriginalOutputPath scenario) ''FlaxGame.xcodeproj/project.pbxproj''
      = ''/out/FlaxGame.xcodeproj/project.pbxproj''"
    by code_simp
  from skip_packaging_stops [OF h] k h show ?thesis
    unfolding p by simp
qed

section \<open>Native code files in the loop\<close>

text \<open>
  A name that ends with \<open>.dylib\<close>, in either search case, ends with a dot and five
  characters that are neither dots nor separators; the extension of the file is then these
  five characters.  The extension of a file named \<open>.DS_Store\<close> is \<open>DS_Store\<close>.
\<close>

lemma ToLowerChar_dot:
  assumes "ToLowerChar c = CHR ''.''"
  shows "c = CHR ''.''"
proof (cases "c \<in> set ''ABCDEFGHIJKLMNOPQRSTUVWXYZ''")
  case True
  then have "ToLowerChar c \<noteq> CHR ''.''" by (auto simp: ToLowerChar_def)
  with assms show ?thesis by simp
next
  case False
  then have "ToLowerChar c = c" by (simp add: ToLowerChar_def)
  with assms show ?thesis by simp
qed

lemma CharEquals_dot:
  "CharEquals sc (CHR ''.'') c \<Longrightarrow> c = CHR ''.''"
proof (cases sc)
  case CaseSensitive
  assume "CharEquals sc (CHR ''.'') c"
  with CaseSensitive show ?thesis by (simp add: CharEquals_def)
next
  case IgnoreCase
  assume "CharEquals sc (CHR ''.'') c"
  with IgnoreCase have "ToLowerChar c = ToLowerChar (CHR ''.'')" by (simp add: CharEquals_def)
  moreover have "ToLowerChar (CHR ''.'') = CHR ''.''" by (simp add: ToLowerChar_def)
  ultimately show ?thesis by (simp only: ToLowerChar_dot)
qed

lemma ToLowerChar_plain:
  "c = CHR ''.'' \<or> IsSeparator c \<Longrightarrow> ToLowerChar c = c"
  unfolding IsSeparator_def by (elim disjE) (simp_all add: ToLowerChar_def)

lemma ToLowerChar_dylib:
  assumes "x \<in> set ''dylib''"
  shows "ToLowerChar x = x"
proof -
  from assms have "x = CHR ''d'' \<or> x = CHR ''y'' \<or> x = CHR ''l'' \<or> x = CHR ''i'' \<or> x = CHR ''b''"
    by simp
  then show ?thesis by (elim disjE) (simp_all add: ToLowerChar_def)
qed

lemma dylib_letter_plain:
  assumes "c = CHR ''.'' \<or> IsSeparator c" "c \<in> set ''dylib''"
  shows False
proof -
  from assms(2) have "c = CHR ''d'' \<or> c = CHR ''y'' \<or> c = CHR ''l'' \<or> c = CHR ''i'' \<or> c = CHR ''b''"
    by simp
  then show False using assms(1) unfolding IsSeparator_def by (elim disjE) simp_all
qed

lemma CharEquals_letter:
  assumes "CharEquals sc x c" "x \<in> set ''dylib''"
  shows "c \<noteq> CHR ''.'' \<and> \<not> IsSeparator c"
proof (rule ccontr)
  assume "\<not> (c \<noteq> CHR ''.'' \<and> \<not> IsSeparator c)"
  then have p: "c = CHR ''.'' \<or> IsSeparator c" by simp
  then have l: "ToLowerChar c = c" by (rule ToLowerChar_plain)
  have x: "ToLowerChar x = x" using assms(2) by (rule ToLowerChar_dylib)
  have "x = c" using assms(1) l x by (cases sc) (simp_all add: CharEquals_def)
  with assms(2) have "c \<in> set ''dylib''" by (simp only:)
  with p show False by (rule dylib_letter_plain)
qed

lemma EndsWith_dylib_shape:
  assumes "EndsWith ''.dylib'' sc name"
  shows "\<exists>pre c1 c2 c3 c4 c5. name = pre @ [CHR ''.'', c1, c2, c3, c4, c5]
           \<and> (c1 \<noteq> CHR ''.'' \<and> \<not> IsSeparator c1) \<and> (c2 \<noteq> CHR ''.'' \<and> \<not> IsSeparator c2)
           \<and> (c3 \<noteq> CHR ''.'' \<and> \<not> IsSeparator c3) \<and> (c4 \<noteq> CHR ''.'' \<and> \<not> IsSeparator c4)
           \<and> (c5 \<noteq> CHR ''.'' \<and> \<not> IsSeparator c5)"
proof -
  define pre where "pre = take (length name - length ''.dylib'') name"
  define tl6 where "tl6 = drop (length name - length ''.dylib'') name"
  have n: "name = pre @ tl6" by (simp add: pre_def tl6_def)
  from assms have "list_all2 (CharEquals sc) ''.dylib'' tl6"
    unfolding EndsWith_def tl6_def by (elim conjE)
  then obtain c0 c1 c2 c3 c4 c5 where t: "tl6 = [c0, c1, c2, c3, c4, c5]"
    and e: "CharEquals sc (CHR ''.'') c0" "CharEquals sc (CHR ''d'') c1"
      "CharEquals sc (CHR ''y'') c2" "CharEquals sc (CHR ''l'') c3"
      "CharEquals sc (CHR ''i'') c4" "CharEquals sc (CHR ''b'') c5"
    by (auto simp add: list_all2_Cons1)
  have c0: "c0 = CHR ''.''" using e(1) by (rule CharEquals_dot)
  have p1: "c1 \<noteq> CHR ''.'' \<and> \<not> IsSeparator c1" using e(2) by (rule CharEquals_letter) simp
  have p2: "c2 \<noteq> CHR ''.'' \<and> \<not> IsSeparator c2" using e(3) by (rule CharEquals_letter) simp
  have p3: "c3 \<noteq> CHR ''.'' \<and> \<not> IsSeparator c3" using e(4) by (rule CharEquals_letter) simp
  have p4: "c4 \<noteq> CHR ''.'' \<and> \<not> IsSeparator c4" using e(5) by (rule CharEquals_letter) simp
  have p5: "c5 \<noteq> CHR ''.'' \<and> \<not> IsSeparator c5" using e(6) by (rule CharEquals_letter) simp
  have "name = pre @ [CHR ''.'', c1, c2, c3, c4, c5]" unfolding n t c0 ..
  with p1 p2 p3 p4 p5 show ?thesis by blast
qed

lemma GetExtension_of_dylib:
  assumes "EndsWith ''.dylib'' sc (GetFileName file)"
  shows "GetExtension file \<noteq> []"
proof -
  from EndsWith_dylib_shape [OF assms]
  obtain pre c1 c2 c3 c4 c5 where
    n: "GetFileName file = pre @ [CHR ''.'', c1, c2, c3, c4, c5]"
    and p: "c1 \<noteq> CHR ''.'' \<and> \<not> IsSeparator c1" "c2 \<noteq> CHR ''.'' \<and> \<not> IsSeparator c2"
      "c3 \<noteq> CHR ''.'' \<and> \<not> IsSeparator c3" "c4 \<noteq> CHR ''.'' \<and> \<not> IsSeparator c4"
      "c5 \<noteq> CHR ''.'' \<and> \<not> IsSeparator c5"
    by (elim exE conjE) (erule that; simp)
  define rest where "rest = rev pre @ dropWhile (\<lambda>c. \<not> IsSeparator c) (rev file)"
  have "takeWhile (\<lambda>c. \<not> IsSeparator c) (rev file) = rev (GetFileName file)"
    by (simp add: GetFileName_def)
  then have "takeWhile (\<lambda>c. \<not> IsSeparator c) (rev file) = [c5, c4, c3, c2, c1, CHR ''.''] @ rev pre"
    unfolding n by simp
  then have "takeWhile (\<lambda>c. \<not> IsSeparator c) (rev file) @ dropWhile (\<lambda>c. \<not> IsSeparator c) (rev file)
      = [c5, c4, c3, c2, c1, CHR ''.''] @ rest"
    unfolding rest_def by (simp only: append_assoc)
  then have r: "rev file = c5 # c4 # c3 # c2 # c1 # CHR ''.'' # rest"
    by (simp only: takeWhile_dropWhile_id append.simps)
  have d: "dropWhile (\<lambda>c. c \<noteq> CHR ''.'' \<and> \<not> IsSeparator c) (rev file) = CHR ''.'' # rest"
    unfolding r using p by simp
  have t: "takeWhile (\<lambda>c. c \<noteq> CHR ''.'' \<and> \<not> IsSeparator c) (rev file) = [c5, c4, c3, c2, c1]"
    unfolding r using p by simp
  have "GetExtension file = [c1, c2, c3, c4, c5]"
    unfolding GetExtension_def d t by simp
  then show ?thesis by simp
qed

lemma extensionless_not_dylib:
  "GetExtension file = [] \<Longrightarrow> \<not> IsDylib env file"
  unfolding IsDylib_def using GetExtension_of_dylib by blast

lemma GetExtension_of_DS_Store:
  assumes "GetFileName file = ''.DS_Store''"
  shows "GetExtension file = ''DS_Store''"
proof -
  define rest where "rest = dropWhile (\<lambda>c. \<not> IsSeparator c) (rev file)"
  have "takeWhile (\<lambda>c. \<not> IsSeparator c) (rev file) = rev (GetFileName file)"
    by (simp add: GetFileName_def)
  then have "takeWhile (\<lambda>c. \<not> IsSeparator c) (rev file) = ''erotS_SD.''"
    unfolding assms by simp
  then have "takeWhile (\<lambda>c. \<not> IsSeparator c) (rev file) @ dropWhile (\<lambda>c. \<not> IsSeparator c) (rev file)
      = ''erotS_SD.'' @ rest"
    unfolding rest_def by (simp only:)
  then have r: "rev file = ''erotS_SD.'' @ rest"
    by (simp only: takeWhile_dropWhile_id)
  show ?thesis
    unfolding GetExtension_def r by (simp add: IsSeparator_def)
qed

lemma extensionless_excluded:
  assumes "GetExtension file = []" "Excluded (GetFileName file)"
  shows "GetFileName file = ''FlaxGame''"
proof (rule ccontr)
  assume "GetFileName file \<noteq> ''FlaxGame''"
  with assms(2) have "GetFileName file = ''.DS_Store''"
    unfolding Excluded_def by blast
  then have "GetExtension file = ''DS_Store''"
    by (rule GetExtension_of_DS_Store)
  with assms(1) show False by simp
qed

text \<open>
  C10, as stated, fails.  The file \<open>/out/FlaxGame/Data/FlaxGame\<close> has no extension and
  is a native code file, but the loop skips it: nothing is appended for it, in the
  resources sections or elsewhere.
\<close>

theorem extensionless_native_file_counterexample:
  "GetExtension ''/out/FlaxGame/Data/FlaxGame'' = []
   \<and> IsNativeCodeFile ''/out/FlaxGame/Data/FlaxGame''
   \<and> appended (BuildProject (scenario\<lparr>Files := [''/out/FlaxGame/Data/FlaxGame'']\<rparr>) []) = []
   \<and> configReplaceMap (BuildProject (scenario\<lparr>Files := [''/out/FlaxGame/Data/FlaxGame'']\<rparr>) []) = []"
  by code_simp

text \<open>
  C10, amended.  A file without extension is a native code file, as is a file with the
  extension \<open>dylib\<close>; the loop treats a file as a dynamic library (it starts a process
  for it) exactly when the file is not skipped and its name ends with \<open>.dylib\<close>.  The
  name of a file without extension does not end with \<open>.dylib\<close>; so such a file, when it
  is not named \<open>FlaxGame\<close>, gets the four lines of a resource and no process, and when it
  is named \<open>FlaxGame\<close> it is skipped and the state of the loop is unchanged.
\<close>

theorem extensionless_native_file:
  "(GetExtension file = [] \<longrightarrow>
      IsNativeCodeFile file
      \<and> \<not> EndsWith ''.dylib'' (EndsWithSearchCase env) (GetFileName file)
      \<and> (GetFileName file = ''FlaxGame'' \<longrightarrow> ProcessFile env file st = st)
      \<and> (GetFileName file \<noteq> ''FlaxGame'' \<longrightarrow>
            effects (ProcessFile env file st) = effects st
          \<and> appended (ProcessFile env file st) = appended st @
              ResourceLines (ObjectIdOf env (guids st)) (ObjectIdOf env (guids st + 1))
                (GetFileName file) (ConvertAbsolutePathToRelative env (DataOutputPath env) file)))
   \<and> (GetExtension file = ''dylib'' \<longrightarrow> IsNativeCodeFile file)
   \<and> (effects (ProcessFile env file st) \<noteq> effects st \<longleftrightarrow>
        \<not> Excluded (GetFileName file)
        \<and> EndsWith ''.dylib'' (EndsWithSearchCase env) (GetFileName file))"
proof (intro conjI impI)
  assume "GetExtension file = []"
  then show "IsNativeCodeFile file" by (simp add: IsNativeCodeFile_def)
next
  assume "GetExtension file = []"
  then have "\<not> IsDylib env file" by (rule extensionless_not_dylib)
  then show "\<not> EndsWith ''.dylib'' (EndsWithSearchCase env) (GetFileName file)"
    by (simp add: IsDylib_def)
next
  assume "GetFileName file = ''FlaxGame''"
  then have "Excluded (GetFileName file)" by (simp add: Excluded_def)
  then show "ProcessFile env file st = st" by (rule ProcessFile_excluded)
next
  assume e: "GetExtension file = []" and n: "GetFileName file \<noteq> ''FlaxGame''"
  from e n have x: "\<not> Excluded (GetFileName file)" using extensionless_excluded by blast
  from e have d: "\<not> IsDylib env file" by (rule extensionless_not_dylib)
  from x d show "effects (ProcessFile env file st) = effects st"
    by (simp add: ProcessFile_resource)
next
  assume e: "GetExtension file = []" and n: "GetFileName file \<noteq> ''FlaxGame''"
  from e n have x: "\<not> Excluded (GetFileName file)" using extensionless_excluded by blast
  from e have d: "\<not> IsDylib env file" by (rule extensionless_not_dylib)
  from x d show "appended (ProcessFile env file st) = appended st @
              ResourceLines (ObjectIdOf env (guids st)) (ObjectIdOf env (guids st + 1))
                (GetFileName file) (ConvertAbsolutePathToRelative env (DataOutputPath env) file)"
    by (simp add: ProcessFile_resource)
next
  assume "GetExtension file = ''dylib''"
  then show "IsNativeCodeFile file" by (simp add: IsNativeCodeFile_def)
next
  show "effects (ProcessFile env file st) \<noteq> effects st \<longleftrightarrow>
        \<not> Excluded (GetFileName file)
        \<and> EndsWith ''.dylib'' (EndsWithSearchCase env) (GetFileName file)"
  proof (cases "Excluded (GetFileName file)")
    case True
    then show ?thesis by (simp add: ProcessFile_excluded)
  next
    case False
    then show ?thesis
      by (cases "IsDylib env file")
        (simp_all add: ProcessFile_dylib ProcessFile_resource IsDylib_def [symmetric])
  qed
qed

theorem extensionless_native_file_witness:
  "GetExtension ''/out/FlaxGame/Data/FlaxGame'' = []
   \<and> GetFileName ''/out/FlaxGame/Data/FlaxGame'' = ''FlaxGame''
   \<and> ProcessFile scenario ''/out/FlaxGame/Data/FlaxGame''
        \<lparr>configReplaceMap = [], appended = [], guids = 0, effects = []\<rparr>
       = \<lparr>configReplaceMap = [], appended = [], guids = 0, effects = []\<rparr>
   \<and> GetExtension ''/out/FlaxGame/Data/Dotnet/createdump'' = []
   \<and> GetFileName ''/out/FlaxGame/Data/Dotnet/createdump'' \<noteq> ''FlaxGame''
   \<and> IsNativeCodeFile ''/out/FlaxGame/Data/Dotnet/createdump''
   \<and> \<not> EndsWith ''.dylib'' IgnoreCase (GetFileName ''/out/FlaxGame/Data/Dotnet/createdump'')
   \<and> effects (ProcessFile scenario ''/out/FlaxGame/Data/Dotnet/createdump''
        \<lparr>configReplaceMap = [], appended = [], guids = 0, effects = []\<rparr>) = []
   \<and> map fst (appended (ProcessFile scenario ''/out/FlaxGame/Data/Dotnet/createdump''
        \<lparr>configReplaceMap = [], appended = [], guids = 0, effects = []\<rparr>))
       = [''${PBXBuildFile}'', ''${PBXFileReference}'', ''${PBXFilesGroup}'', ''${PBXResourcesGroup}'']
   \<and> GetExtension ''/out/FlaxGame/Data/lib.dylib'' = ''dylib''
   \<and> IsNativeCodeFile ''/out/FlaxGame/Data/lib.dylib''"
proof -
  have a: "GetExtension ''/out/FlaxGame/Data/FlaxGame'' = []"
    "GetFileName ''/out/FlaxGame/Data/FlaxGame'' = ''FlaxGame''"
    "GetExtension ''/out/FlaxGame/Data/Dotnet/createdump'' = []"
    "GetFileName ''/out/FlaxGame/Data/Dotnet/createdump'' \<noteq> ''FlaxGame''"
    "GetExtension ''/out/FlaxGame/Data/lib.dylib'' = ''dylib''"
    by code_simp+
  have s: "EndsWithSearchCase scenario = IgnoreCase"
    by (simp add: scenario_def)
  note t1 = extensionless_native_file [of "''/out/FlaxGame/Data/FlaxGame''" scenario
      "\<lparr>configReplaceMap = [], appended = [], guids = 0, effects = []\<rparr>"]
  note t2 = extensionless_native_file [of "''/out/FlaxGame/Data/Dotnet/createdump''" scenario
      "\<lparr>configReplaceMap = [], appended = [], guids = 0, effects = []\<rparr>"]
  note t3 = extensionless_native_file [of "''/out/FlaxGame/Data/lib.dylib''" scenario
      "\<lparr>configReplaceMap = [], appended = [], guids = 0, effects = []\<rparr>"]
  from t1 a(1,2) have r1: "ProcessFile scenario ''/out/FlaxGame/Data/FlaxGame''
        \<lparr>configReplaceMap = [], appended = [], guids = 0, effects = []\<rparr>
       = \<lparr>configReplaceMap = [], appended = [], guids = 0, effects = []\<rparr>"
    by blast
  from t2 a(3,4) have r2: "IsNativeCodeFile ''/out/FlaxGame/Data/Dotnet/createdump''
      \<and> \<not> EndsWith ''.dylib'' (EndsWithSearchCase scenario) (GetFileName ''/out/FlaxGame/Data/Dotnet/createdump'')
      \<and> effects (ProcessFile scenario ''/out/FlaxGame/Data/Dotnet/createdump''
        \<lparr>configReplaceMap = [], appended = [], guids = 0, effects = []\<rparr>) 
         = effects \<lparr>configReplaceMap = [], appended = [], guids = 0, effects = []\<rparr>
      \<and> appended (ProcessFile scenario ''/out/FlaxGame/Data/Dotnet/createdump''
        \<lparr>configReplaceMap = [], appended = [], guids = 0, effects = []\<rparr>)
         = appended \<lparr>configReplaceMap = [], appended = [], guids = 0, effects = []\<rparr> @
              ResourceLines (ObjectIdOf scenario (guids \<lparr>configReplaceMap = [], appended = [], guids = 0, effects = []\<rparr>))
                (ObjectIdOf scenario (guids \<lparr>configReplaceMap = [], appended = [], guids = 0, effects = []\<rparr> + 1))
                (GetFileName ''/out/FlaxGame/Data/Dotnet/createdump'')
                (ConvertAbsolutePathToRelative scenario (DataOutputPath scenario) ''/out/FlaxGame/Data/Dotnet/createdump'')"
    by blast
  from t3 a(5) have r3: "IsNativeCodeFile ''/out/FlaxGame/Data/lib.dylib''"
    by blast
  from r2 have r2': "IsNativeCodeFile ''/out/FlaxGame/Data/Dotnet/createdump''
      \<and> \<not> EndsWith ''.dylib'' IgnoreCase (GetFileName ''/out/FlaxGame/Data/Dotnet/createdump'')
      \<and> effects (ProcessFile scenario ''/out/FlaxGame/Data/Dotnet/createdump''
        \<lparr>configReplaceMap = [], appended = [], guids = 0, effects = []\<rparr>) = []
      \<and> map fst (appended (ProcessFile scenario ''/out/FlaxGame/Data/Dotnet/createdump''
        \<lparr>configReplaceMap = [], appended = [], guids = 0, effects = []\<rparr>))
       = [''${PBXBuildFile}'', ''${PBXFileReference}'', ''${PBXFilesGroup}'', ''${PBXResourcesGroup}'']"
    unfolding s by (simp add: ResourceLines_def)
  from a r1 r2' r3 show ?thesis by simp
qed

section \<open>Further properties\<close>

text \<open>
  The dictionary handed to the substitution is the dictionary before the loop to which the
  appended lines have been added in order, each as its formatted text under its key.
\<close>

lemma map_of_Append:
  "map_of (Append kl m) key =
     (if key = fst kl
      then Some ((case map_of m key of None \<Rightarrow> [] | Some v \<Rightarrow> v) @ FormatLine (snd kl))
      else map_of m key)"
  by (simp add: Append_def map_of_map_default split: option.split)

lemma filter_key_absent:
  "key \<notin> fst ` set ls \<Longrightarrow> filter (\<lambda>kl. fst kl = key) ls = []"
  by (induction ls) auto

lemma map_of_fold_Append:
  "map_of (fold Append ls m) key =
     (if key \<in> fst ` set ls
      then Some ((case map_of m key of None \<Rightarrow> [] | Some v \<Rightarrow> v)
                 @ concat (map (\<lambda>kl. FormatLine (snd kl)) (filter (\<lambda>kl. fst kl = key) ls)))
      else map_of m key)"
proof (induction ls arbitrary: m)
  case Nil
  show ?case by simp
next
  case (Cons kl ls)
  show ?case
    by (cases "fst kl = key")
      (auto simp add: Cons.IH map_of_Append filter_key_absent split: option.split)
qed

lemma configReplaceMap_fold_ProcessFile:
  assumes "configReplaceMap st = fold Append (appended st) m"
  shows "configReplaceMap (fold (ProcessFile env) fs st)
           = fold Append (appended (fold (ProcessFile env) fs st)) m"
  using assms
proof (induction fs arbitrary: st)
  case Nil
  then show ?case by simp
next
  case (Cons f fs)
  have "configReplaceMap (ProcessFile env f st) = fold Append (appended (ProcessFile env f st)) m"
  proof (cases "Excluded (GetFileName f)")
    case True
    with Cons.prems show ?thesis by (simp add: ProcessFile_excluded)
  next
    case False
    with Cons.prems show ?thesis
      by (cases "IsDylib env f") (simp_all add: ProcessFile_dylib ProcessFile_resource)
  qed
  then have "configReplaceMap (fold (ProcessFile env) fs (ProcessFile env f st))
           = fold Append (appended (fold (ProcessFile env) fs (ProcessFile env f st))) m"
    by (rule Cons.IH)
  then show ?case by simp
qed

text \<open>
  X1.  After the loop the dictionary is the one before the loop with every appended line
  added under its key, in the order of appending; in particular the text substituted for
  \<open>${PBXFileReference}\<close> is the concatenation of the formatted file-reference lines.
\<close>

theorem sections_are_formatted_lines:
  "configReplaceMap (BuildProject env m) = fold Append (appended (BuildProject env m)) m
   \<and> map_of (configReplaceMap (BuildProject env (InitialReplaceMap env appIdentifier)))
         ''${PBXFileReference}''
       = Some (concat (map (\<lambda>kl. FormatLine (snd kl))
                 (filter (\<lambda>kl. fst kl = ''${PBXFileReference}'')
                    (appended (BuildProject env (InitialReplaceMap env appIdentifier))))))"
proof
  show a: "configReplaceMap (BuildProject env m) = fold Append (appended (BuildProject env m)) m" for m
    unfolding BuildProject_def by (rule configReplaceMap_fold_ProcessFile) simp
  define ls where "ls = appended (BuildProject env (InitialReplaceMap env appIdentifier))"
  have b: "map_of (InitialReplaceMap env appIdentifier) ''${PBXFileReference}'' = Some []"
    by (simp add: InitialReplaceMap_def update_conv')
  have "map_of (fold Append ls (InitialReplaceMap env appIdentifier)) ''${PBXFileReference}''
      = Some (concat (map (\<lambda>kl. FormatLine (snd kl))
                 (filter (\<lambda>kl. fst kl = ''${PBXFileReference}'') ls)))"
    unfolding map_of_fold_Append b by (simp add: filter_key_absent)
  then show "map_of (configReplaceMap (BuildProject env (InitialReplaceMap env appIdentifier)))
         ''${PBXFileReference}''
       = Some (concat (map (\<lambda>kl. FormatLine (snd kl))
                 (filter (\<lambda>kl. fst kl = ''${PBXFileReference}'')
                    (appended (BuildProject env (InitialReplaceMap env appIdentifier))))))"
    unfolding a ls_def .
qed

text \<open>
  X2.  The application name is the product name without its spaces, dots and hyphens, and
  has none of the three characters; the same holds for the company name as it enters the
  package name.
\<close>

theorem app_name_stripped:
  "GetAppName env
     = filter (\<lambda>c. c \<noteq> CHR '' '' \<and> c \<noteq> CHR ''.'' \<and> c \<noteq> CHR ''-'') (ProductName env)
   \<and> CHR '' '' \<notin> set (GetAppName env)
   \<and> CHR ''.'' \<notin> set (GetAppName env)
   \<and> CHR ''-'' \<notin> set (GetAppName env)
   \<and> CHR '' '' \<notin> set (StripName (CompanyName env))
   \<and> CHR ''.'' \<notin> set (StripName (CompanyName env))
   \<and> CHR ''-'' \<notin> set (StripName (CompanyName env))"
  by (simp add: GetAppName_def StripName_filter)

text \<open>
  A search text that is a space, a dot or a hyphen matches the same characters in both
  search cases.
\<close>

lemma ToLowerChar_range:
  "ToLowerChar c = c \<or> ToLowerChar c \<in> set ''abcdefghijklmnopqrstuvwxyz''"
proof (cases "c \<in> set ''ABCDEFGHIJKLMNOPQRSTUVWXYZ''")
  case True
  then have "ToLowerChar c \<in> set ''abcdefghijklmnopqrstuvwxyz''"
    by (auto simp: ToLowerChar_def)
  then show ?thesis ..
next
  case False
  then have "ToLowerChar c = c" by (simp add: ToLowerChar_def)
  then show ?thesis ..
qed

lemma CharEquals_no_letter:
  assumes "x \<in> set '' .-''"
  shows "CharEquals sc x c \<longleftrightarrow> x = c"
proof (cases sc)
  case CaseSensitive
  then show ?thesis by (simp add: CharEquals_def)
next
  case IgnoreCase
  from assms have x: "x = CHR '' '' \<or> x = CHR ''.'' \<or> x = CHR ''-''" by simp
  then have lx: "ToLowerChar x = x"
    by (elim disjE) (simp_all add: ToLowerChar_def)
  from x have nl: "x \<notin> set ''abcdefghijklmnopqrstuvwxyz''"
    by (elim disjE) simp_all
  have "ToLowerChar c = x \<longleftrightarrow> c = x"
  proof
    assume e: "ToLowerChar c = x"
    from ToLowerChar_range [of c] show "c = x"
    proof
      assume "ToLowerChar c = c"
      with e show ?thesis by simp
    next
      assume "ToLowerChar c \<in> set ''abcdefghijklmnopqrstuvwxyz''"
      with e nl show ?thesis by (simp only:)
    qed
  next
    assume "c = x"
    with lx show "ToLowerChar c = x" by simp
  qed
  with IgnoreCase lx show ?thesis by (auto simp add: CharEquals_def)
qed

text \<open>
  X3.  Whatever the default search case of \<open>Replace\<close> is, the three replacements of
  lines 33-35, 144-146 and 148-150 give the stripped name.
\<close>

theorem strip_in_any_search_case:
  "Replace ''-'' [] sc3 (Replace ''.'' [] sc2 (Replace '' '' [] sc1 name)) = StripName name"
  by (simp add: StripName_def Replace_single CharEquals_no_letter)

end
